theory Spec2Isabelle
  imports Main "HOL-Library.Sublist" "HOL-Library.Word"
begin

unbundle bit_operations_syntax

section \<open>Go strings and the functions of package strings that the policy options call\<close>

text \<open>
  A Go string is a sequence of bytes; \<^typ>\<open>string\<close> (a list of 8-bit characters) is
  exactly that.  Indexing \<open>s[i]\<close> and slicing \<open>s[1:]\<close> work on bytes.
\<close>

definition isASCII :: "char \<Rightarrow> bool" where
  "isASCII c = ((of_char c :: nat) < 128)"

definition isUpperASCII :: "char \<Rightarrow> bool" where
  "isUpperASCII c = (65 \<le> (of_char c :: nat) \<and> (of_char c :: nat) \<le> 90)"

text \<open>Printable ASCII without the space: the bytes 33 to 126.\<close>

definition isPrintable :: "char \<Rightarrow> bool" where
  "isPrintable c = (33 \<le> (of_char c :: nat) \<and> (of_char c :: nat) \<le> 126)"

definition lowerByte :: "char \<Rightarrow> char" where
  "lowerByte c = (if isUpperASCII c then char_of ((of_char c :: nat) + 32) else c)"

text \<open>
  \<open>strings.ToLower\<close>: a string of ASCII bytes is mapped byte by byte (\<open>'A'..'Z'\<close> to
  \<open>'a'..'z'\<close>).  Any other string goes through \<open>strings.Map(unicode.ToLower, s)\<close>, which
  reads the Unicode case tables; that path is the parameter \<open>mapUnicodeToLower\<close>.
\<close>

definition ToLower :: "(string \<Rightarrow> string) \<Rightarrow> string \<Rightarrow> string" where
  "ToLower mapUnicodeToLower s =
     (if list_all isASCII s then map lowerByte s else mapUnicodeToLower s)"

text \<open>
  \<open>strings.TrimSpace\<close> removes leading and trailing white space as \<open>unicode.IsSpace\<close>
  defines it.  \<open>unicodeSpaces\<close> lists the UTF-8 encodings of those code points:
  the six ASCII ones, U+0085, U+00A0, U+1680, U+2000..U+200A, U+2028, U+2029, U+202F,
  U+205F and U+3000.
\<close>

definition unicodeSpaces :: "string list" where
  "unicodeSpaces =
     [[CHR 0x09], [CHR 0x0A], [CHR 0x0B], [CHR 0x0C], [CHR 0x0D], [CHR 0x20],
      [CHR 0xC2, CHR 0x85], [CHR 0xC2, CHR 0xA0],
      [CHR 0xE1, CHR 0x9A, CHR 0x80],
      [CHR 0xE2, CHR 0x80, CHR 0x80], [CHR 0xE2, CHR 0x80, CHR 0x81],
      [CHR 0xE2, CHR 0x80, CHR 0x82], [CHR 0xE2, CHR 0x80, CHR 0x83],
      [CHR 0xE2, CHR 0x80, CHR 0x84], [CHR 0xE2, CHR 0x80, CHR 0x85],
      [CHR 0xE2, CHR 0x80, CHR 0x86], [CHR 0xE2, CHR 0x80, CHR 0x87],
      [CHR 0xE2, CHR 0x80, CHR 0x88], [CHR 0xE2, CHR 0x80, CHR 0x89],
      [CHR 0xE2, CHR 0x80, CHR 0x8A],
      [CHR 0xE2, CHR 0x80, CHR 0xA8], [CHR 0xE2, CHR 0x80, CHR 0xA9],
      [CHR 0xE2, CHR 0x80, CHR 0xAF], [CHR 0xE2, CHR 0x81, CHR 0x9F],
      [CHR 0xE3, CHR 0x80, CHR 0x80]]"

text \<open>The width in bytes of the white-space rune a string starts with; 0 when there is none.\<close>

definition leadingSpace :: "string list \<Rightarrow> string \<Rightarrow> nat" where
  "leadingSpace ws s = (case find (\<lambda>w. prefix w s) ws of None \<Rightarrow> 0 | Some w \<Rightarrow> length w)"

function trimLeading :: "string list \<Rightarrow> string \<Rightarrow> string" where
  "trimLeading ws s =
     (if leadingSpace ws s = 0 then s else trimLeading ws (drop (leadingSpace ws s) s))"
  by pat_completeness auto
termination
proof (relation "measure (\<lambda>(ws, s). length s)")
  show "wf (measure (\<lambda>(ws, s). length s))" by simp
next
  fix ws :: "string list" and s :: string
  assume a: "leadingSpace ws s \<noteq> 0"
  then obtain w where w: "find (\<lambda>w. prefix w s) ws = Some w" and l: "length w \<noteq> 0"
    by (auto simp: leadingSpace_def split: option.splits)
  from w have "prefix w s" by (auto simp: find_Some_iff)
  with l have "s \<noteq> []" by auto
  with a show "((ws, drop (leadingSpace ws s) s), (ws, s)) \<in> measure (\<lambda>(ws, s). length s)"
    by simp
qed

declare trimLeading.simps [simp del]

definition TrimSpace :: "string \<Rightarrow> string" where
  "TrimSpace s =
     rev (trimLeading (map rev unicodeSpaces) (rev (trimLeading unicodeSpaces s)))"

text \<open>\<open>strings.HasPrefix(s, prefix)\<close>.\<close>

definition HasPrefix :: "string \<Rightarrow> string \<Rightarrow> bool" where
  "HasPrefix s p = prefix p s"

text \<open>\<open>strings.Contains(s, substr)\<close>: \<open>substr\<close> occurs somewhere in \<open>s\<close>.\<close>

fun Contains :: "string \<Rightarrow> string \<Rightarrow> bool" where
  "Contains [] substr = (substr = [])"
| "Contains (c # cs) substr = (prefix substr (c # cs) \<or> Contains cs substr)"

text \<open>
  \<open>strings.LastIndex(s, substr)\<close>: the index of the last occurrence of \<open>substr\<close> in
  \<open>s\<close>, or \<open>-1\<close>.
\<close>

fun LastIndex :: "string \<Rightarrow> string \<Rightarrow> int" where
  "LastIndex [] substr = (if substr = [] then 0 else - 1)"
| "LastIndex (c # cs) substr =
     (if 0 \<le> LastIndex cs substr then LastIndex cs substr + 1
      else if prefix substr (c # cs) then 0 else - 1)"

text \<open>
  \<open>strings.Count(s, substr)\<close> for a one-byte \<open>substr\<close> (the only use in the source
  is \<open>strings.Count(s, "@")\<close>): the number of bytes of \<open>s\<close> equal to it.
\<close>

definition Count :: "string \<Rightarrow> char \<Rightarrow> nat" where
  "Count s c = length (filter (\<lambda>d. d = c) s)"

section \<open>Errors\<close>

text \<open>
  \<open>Errorf\<close> stands for both \<open>errors.Errorf\<close> and \<open>fmt.Errorf\<close>: the format string as it
  is written in the source, and the arguments that fill its \<open>%q\<close> verbs.  \<open>Wrapf\<close> is
  \<open>errors.Wrapf\<close>, which keeps the wrapped error.  \<open>LibraryError\<close> is an error value made
  by a package outside the repository.  \<open>PanicIndexOutOfRange i n\<close> is not an error value: it
  is the run-time panic "index out of range [i] with length n", which unwinds through
  every caller that does not recover.
\<close>

datatype error =
    Errorf string "string list"
  | Wrapf error string "string list"
  | LibraryError string
  | PanicIndexOutOfRange nat nat

fun isPanic :: "error \<Rightarrow> bool" where
  "isPanic (PanicIndexOutOfRange i n) = True"
| "isPanic (Errorf f as) = False"
| "isPanic (Wrapf e f as) = False"
| "isPanic (LibraryError m) = False"

section \<open>Collaborators outside \<open>options.go\<close>\<close>

type_synonym byte = "8 word"
type_synonym IP = "byte list"
type_synonym IPMask = "byte list"

record IPNet =
  IP :: IP
  Mask :: IPMask

text \<open>
  The struct \<open>rfc2821Mailbox\<close> with its fields \<open>local\<close> and \<open>domain\<close> (the field names carry
  a prefix here, \<open>domain\<close> being a variable name throughout the options).
\<close>

record rfc2821Mailbox =
  mailbox_local :: string
  mailbox_domain :: string

text \<open>
  The functions that \<open>options.go\<close> calls and that live elsewhere are parameters of the
  model:
  \<^item> \<open>unicode_ToLower\<close>: the Unicode path of \<open>strings.ToLower\<close> (see \<open>ToLower\<close>);
  \<^item> \<open>idna_ToASCII\<close>: \<open>idna.Lookup.ToASCII\<close> of golang.org/x/net/idna;
  \<^item> \<open>domainToReverseLabels\<close> and \<open>parseRFC2821Mailbox\<close>: helpers of package policy
    defined in another file; the second result \<open>ok\<close> is \<open>Some\<close>/\<open>None\<close> here;
  \<^item> \<open>net_ParseCIDR\<close> (the network it returns; \<open>None\<close> when \<open>err != nil\<close>),
    \<open>net_ParseIP\<close> (\<open>None\<close> for Go's \<open>nil\<close>) and \<open>net_SplitHostPort\<close>
    (\<open>None\<close> when \<open>err != nil\<close>) of package net;
  \<^item> \<open>growslice\<close>: the capacity the run-time system gives the array that \<open>append\<close>
    allocates, from the old capacity and the length needed.
\<close>

record collaborators =
  unicode_ToLower :: "string \<Rightarrow> string"
  idna_ToASCII :: "string \<Rightarrow> error + string"
  domainToReverseLabels :: "string \<Rightarrow> string list option"
  parseRFC2821Mailbox :: "string \<Rightarrow> rfc2821Mailbox option"
  net_ParseCIDR :: "string \<Rightarrow> IPNet option"
  net_ParseIP :: "string \<Rightarrow> IP option"
  net_SplitHostPort :: "string \<Rightarrow> (string \<times> string) option"
  growslice :: "nat \<Rightarrow> nat \<Rightarrow> nat"

section \<open>Constraint normalization (\<open>policy/options.go\<close>)\<close>

text \<open>
  The first line of all three normalizers:
  \<open>strings.ToLower(strings.TrimSpace(constraint))\<close>.
\<close>

definition trimLower :: "collaborators \<Rightarrow> string \<Rightarrow> string" where
  "trimLower X constraint = ToLower (unicode_ToLower X) (TrimSpace constraint)"

text \<open>
  \<open>normalizedConstraint[1]\<close> is read whenever the first byte is \<open>'*'\<close>; on a string of
  length one Go panics there, which is the \<open>PanicIndexOutOfRange\<close> branch.
\<close>

definition normalizeAndValidateDNSDomainConstraint ::
  "collaborators \<Rightarrow> string \<Rightarrow> error + string" where
  "normalizeAndValidateDNSDomainConstraint X constraint =
     (let normalizedConstraint = trimLower X constraint in
      if normalizedConstraint = [] then
        Inl (Errorf ''contraint %q can not be empty or white space string'' [constraint])
      else if Contains normalizedConstraint ''..'' then
        Inl (Errorf ''domain constraint %q cannot have empty labels'' [constraint])
      else if normalizedConstraint ! 0 = CHR ''*'' \<and> length normalizedConstraint \<le> 1 then
        Inl (PanicIndexOutOfRange 1 (length normalizedConstraint))
      else if normalizedConstraint ! 0 = CHR ''*'' \<and> normalizedConstraint ! 1 \<noteq> CHR ''.'' then
        Inl (Errorf ''wildcard character in domain constraint %q can only be used to match (full) labels'' [constraint])
      else if 0 < LastIndex normalizedConstraint ''*'' then
        Inl (Errorf ''domain constraint %q can only have wildcard as starting character'' [constraint])
      else
        (let normalizedConstraint =
               (if HasPrefix normalizedConstraint ''*.'' then drop 1 normalizedConstraint
                else normalizedConstraint)
         in case idna_ToASCII X normalizedConstraint of
              Inl err \<Rightarrow>
                Inl (Wrapf err ''domain constraint %q can not be converted to ASCII'' [constraint])
            | Inr normalizedConstraint \<Rightarrow>
                (case domainToReverseLabels X normalizedConstraint of
                   None \<Rightarrow> Inl (Errorf ''cannot parse domain constraint %q'' [constraint])
                 | Some reverseLabels \<Rightarrow> Inr normalizedConstraint)))"

text \<open>
  After a leading \<open>'@'\<close> is cut off, \<open>normalizedConstraint[0]\<close> is read again; when the
  string was exactly \<open>"@"\<close> nothing is left and Go panics.
\<close>

definition normalizeAndValidateEmailConstraint ::
  "collaborators \<Rightarrow> string \<Rightarrow> error + string" where
  "normalizeAndValidateEmailConstraint X constraint =
     (let normalizedConstraint = trimLower X constraint in
      if normalizedConstraint = [] then
        Inl (Errorf ''email contraint %q can not be empty or white space string'' [constraint])
      else if Contains normalizedConstraint ''*'' then
        Inl (Errorf ''email constraint %q cannot contain asterisk wildcard'' [constraint])
      else if 1 < Count normalizedConstraint (CHR ''@'') then
        Inl (Errorf ''email constraint %q contains too many @ characters'' [constraint])
      else
        (let normalizedConstraint =
               (if normalizedConstraint ! 0 = CHR ''@'' then drop 1 normalizedConstraint
                else normalizedConstraint)
         in if normalizedConstraint = [] then Inl (PanicIndexOutOfRange 0 0)
            else if normalizedConstraint ! 0 = CHR ''.'' then
              Inl (Errorf ''email constraint %q cannot start with period'' [constraint])
            else
              (case
                 (if Contains normalizedConstraint ''@'' then
                    (case parseRFC2821Mailbox X normalizedConstraint of
                       None \<Rightarrow>
                         Inl (Errorf ''cannot parse email constraint %q as RFC 2821 mailbox'' [constraint])
                     | Some mailbox \<Rightarrow>
                         (case idna_ToASCII X (mailbox_domain mailbox) of
                            Inl err \<Rightarrow>
                              Inl (Wrapf err ''email constraint %q domain part %q cannot be converted to ASCII''
                                     [constraint, mailbox_domain mailbox])
                          | Inr domainASCII \<Rightarrow> Inr (mailbox_local mailbox @ ''@'' @ domainASCII)))
                  else
                    (case idna_ToASCII X normalizedConstraint of
                       Inl err \<Rightarrow>
                         Inl (Wrapf err ''email constraint %q cannot be converted to ASCII'' [constraint])
                     | Inr ascii \<Rightarrow> Inr ascii))
               of
                 Inl err \<Rightarrow> Inl err
               | Inr normalizedConstraint \<Rightarrow>
                   (case domainToReverseLabels X normalizedConstraint of
                      None \<Rightarrow> Inl (Errorf ''cannot parse email domain constraint %q'' [constraint])
                    | Some reverseLabels \<Rightarrow> Inr normalizedConstraint))))"

definition normalizeAndValidateURIDomainConstraint ::
  "collaborators \<Rightarrow> string \<Rightarrow> error + string" where
  "normalizeAndValidateURIDomainConstraint X constraint =
     (let normalizedConstraint = trimLower X constraint in
      if normalizedConstraint = [] then
        Inl (Errorf ''URI domain contraint %q cannot be empty or white space string'' [constraint])
      else if Contains normalizedConstraint ''..'' then
        Inl (Errorf ''URI domain constraint %q cannot have empty labels'' [constraint])
      else
        (let normalizedConstraint =
               (if HasPrefix normalizedConstraint ''*.'' then drop 1 normalizedConstraint
                else normalizedConstraint)
         in if Contains normalizedConstraint ''*'' then
              Inl (Errorf ''URI domain constraint %q can only have wildcard as starting character'' [constraint])
            else if Contains normalizedConstraint ''['' \<or> Contains normalizedConstraint '']'' then
              Inl (Errorf ''URI domain constraint %q contains invalid square brackets'' [constraint])
            else if net_SplitHostPort X normalizedConstraint \<noteq> None then
              Inl (Errorf ''URI domain constraint %q cannot contain port'' [constraint])
            else if net_ParseIP X normalizedConstraint \<noteq> None then
              Inl (Errorf ''URI domain constraint %q cannot be an IP'' [constraint])
            else
              (case idna_ToASCII X normalizedConstraint of
                 Inl err \<Rightarrow>
                   Inl (Wrapf err ''URI domain constraint %q cannot be converted to ASCII'' [constraint])
               | Inr normalizedConstraint \<Rightarrow>
                   (case domainToReverseLabels X normalizedConstraint of
                      None \<Rightarrow> Inl (Errorf ''cannot parse URI domain constraint %q'' [constraint])
                    | Some reverseLabels \<Rightarrow> Inr normalizedConstraint))))"

section \<open>Slices of \<open>*net.IPNet\<close> and the arrays behind them\<close>

text \<open>
  The fields \<open>permittedIPRanges\<close> and \<open>excludedIPRanges\<close> are slices of type
  \<open>[]*net.IPNet\<close>, and two options store the slice their caller passes in.  A Go slice is
  a header (the backing array, the position of its first element in that array, a length
  and a capacity); \<open>append\<close> writes into the backing array when the capacity allows and
  moves to a new array otherwise.  Two slices over one array see each other's writes, so
  these slices are modelled as headers over a memory of arrays.

  An element is a pointer to a \<open>net.IPNet\<close> or \<open>nil\<close> (\<open>None\<close>).  \<open>cells m a j\<close> is cell \<open>j\<close>
  of array \<open>a\<close>; the arrays \<open>0\<close> to \<open>allocated m - 1\<close> exist.  Every access goes through a
  slice and stays below its capacity, so the size of an array plays no part.
\<close>

type_synonym IPNetPtr = "IPNet option"

record memory =
  cells :: "nat \<Rightarrow> nat \<Rightarrow> IPNetPtr"
  allocated :: nat

record slice =
  sliceArray :: nat
  sliceFirst :: nat
  sliceLen :: nat
  sliceCap :: nat

text \<open>The \<open>nil\<close> slice, the zero value of a slice field: no elements, no capacity.\<close>

definition nilSlice :: slice where
  "nilSlice = \<lparr>sliceArray = 0, sliceFirst = 0, sliceLen = 0, sliceCap = 0\<rparr>"

text \<open>The elements \<open>s[0], ..., s[len(s)-1]\<close> as memory holds them.\<close>

definition elems :: "memory \<Rightarrow> slice \<Rightarrow> IPNetPtr list" where
  "elems m s = map (cells m (sliceArray s)) [sliceFirst s ..< sliceFirst s + sliceLen s]"

text \<open>Writing \<open>xs\<close> into array \<open>a\<close> from cell \<open>i\<close> on.\<close>

definition writeCells :: "memory \<Rightarrow> nat \<Rightarrow> nat \<Rightarrow> IPNetPtr list \<Rightarrow> memory" where
  "writeCells m a i xs =
     m\<lparr>cells := (cells m)
          (a := (\<lambda>j. if i \<le> j \<and> j < i + length xs then xs ! (j - i) else cells m a j))\<rparr>"

text \<open>
  A new array that holds \<open>xs\<close>, and the slice of capacity \<open>c\<close> over it: what \<open>make\<close> followed
  by the assignments of a loop, a literal \<open>[]*net.IPNet{nw}\<close>, and a growing \<open>append\<close>
  produce.  Cells past \<open>xs\<close> are \<open>nil\<close>.
\<close>

definition newSlice :: "memory \<Rightarrow> IPNetPtr list \<Rightarrow> nat \<Rightarrow> memory \<times> slice" where
  "newSlice m xs c =
     (m\<lparr>cells := (cells m)(allocated m := (\<lambda>j. if j < length xs then xs ! j else None)),
        allocated := Suc (allocated m)\<rparr>,
      \<lparr>sliceArray = allocated m, sliceFirst = 0, sliceLen = length xs,
       sliceCap = max (length xs) c\<rparr>)"

text \<open>
  \<open>append(s, xs...)\<close>.  When \<open>len(s) + len(xs) \<le> cap(s)\<close> the elements are written behind
  those of \<open>s\<close> in its own array and only the length of the header changes.  Otherwise
  the elements of \<open>s\<close> and \<open>xs\<close> go to a new array, whose capacity the run-time system
  chooses (\<open>growslice\<close>, a parameter; it is at least the length needed).
\<close>

definition appendSlice ::
  "(nat \<Rightarrow> nat \<Rightarrow> nat) \<Rightarrow> memory \<Rightarrow> slice \<Rightarrow> IPNetPtr list \<Rightarrow> memory \<times> slice" where
  "appendSlice grow m s xs =
     (if sliceLen s + length xs \<le> sliceCap s then
        (writeCells m (sliceArray s) (sliceFirst s + sliceLen s) xs,
         s\<lparr>sliceLen := sliceLen s + length xs\<rparr>)
      else newSlice m (elems m s @ xs) (grow (sliceCap s) (sliceLen s + length xs)))"



section \<open>The engine and its options (\<open>policy/options.go\<close>)\<close>

text \<open>
  \<open>NamePolicyEngine\<close> is declared in another file of package policy; the fields below are
  the ones \<open>options.go\<close> assigns.  The options are written over the record scheme, so
  whatever further fields the struct has are the extension \<open>more\<close>, which no option
  touches.

  The two fields of IP ranges are slices over memory (see above).  The eight fields of
  type \<open>[]string\<close> are modelled by their contents: the options on DNS domains, email
  addresses and URI domains assign a slice they have made themselves or the result of
  appending to their own field, and the principals, which are the caller's slice, are
  never appended to or written; so no write through one of these fields reaches another.
\<close>

record NamePolicyEngine =
  verifySubjectCommonName :: bool
  allowLiteralWildcardNames :: bool
  permittedDNSDomains :: "string list"
  excludedDNSDomains :: "string list"
  permittedIPRanges :: slice
  excludedIPRanges :: slice
  permittedEmailAddresses :: "string list"
  excludedEmailAddresses :: "string list"
  permittedURIDomains :: "string list"
  excludedURIDomains :: "string list"
  permittedPrincipals :: "string list"
  excludedPrincipals :: "string list"

text \<open>
  \<open>type NamePolicyOption func(e *NamePolicyEngine) error\<close>: the option mutates the engine
  behind the pointer and returns an error or \<open>nil\<close>.  The model returns the engine after
  the call together with the error (\<open>None\<close> for \<open>nil\<close>).  When the call panics, the engine
  is the one the panic left behind and the "error" is the panic.
\<close>

type_synonym 'a NamePolicyOption =
  "'a NamePolicyEngine_scheme \<Rightarrow> 'a NamePolicyEngine_scheme \<times> error option"

text \<open>
  The loop all multi-value options share:
  \<^verbatim>\<open>ys := make([]T, len(xs)); for i, x := range xs { y, err := f(x); if err != nil { return ... }; ys[i] = y }\<close>
  The first element that fails ends the loop; \<open>ys\<close> is a local slice.
\<close>

fun forRange :: "('a \<Rightarrow> error + 'b) \<Rightarrow> 'a list \<Rightarrow> error + 'b list" where
  "forRange f [] = Inr []"
| "forRange f (x # xs) =
     (case f x of
        Inl err \<Rightarrow> Inl err
      | Inr y \<Rightarrow> (case forRange f xs of Inl err \<Rightarrow> Inl err | Inr ys \<Rightarrow> Inr (y # ys)))"

text \<open>
  The loop body of the eight DNS options, the same text in each of them, the excluded ones
  included: the normalizer's error is dropped and replaced.  A panic is not an error value
  and passes through.
\<close>

definition dnsDomain :: "collaborators \<Rightarrow> string \<Rightarrow> error + string" where
  "dnsDomain X domain =
     (case normalizeAndValidateDNSDomainConstraint X domain of
        Inl err \<Rightarrow>
          Inl (if isPanic err then err
               else Errorf ''cannot parse permitted domain constraint %q'' [domain])
      | Inr normalizedDomain \<Rightarrow> Inr normalizedDomain)"



definition WithPermittedDNSDomains :: "collaborators \<Rightarrow> string list \<Rightarrow> 'a NamePolicyOption" where
  "WithPermittedDNSDomains X domains e =
     (case forRange (dnsDomain X) domains of
        Inl err \<Rightarrow> (e, Some err)
      | Inr normalizedDomains \<Rightarrow> (e\<lparr>permittedDNSDomains := normalizedDomains\<rparr>, None))"

definition AddPermittedDNSDomains :: "collaborators \<Rightarrow> string list \<Rightarrow> 'a NamePolicyOption" where
  "AddPermittedDNSDomains X domains e =
     (case forRange (dnsDomain X) domains of
        Inl err \<Rightarrow> (e, Some err)
      | Inr normalizedDomains \<Rightarrow>
          (e\<lparr>permittedDNSDomains := permittedDNSDomains e @ normalizedDomains\<rparr>, None))"

definition WithExcludedDNSDomains :: "collaborators \<Rightarrow> string list \<Rightarrow> 'a NamePolicyOption" where
  "WithExcludedDNSDomains X domains e =
     (case forRange (dnsDomain X) domains of
        Inl err \<Rightarrow> (e, Some err)
      | Inr normalizedDomains \<Rightarrow> (e\<lparr>excludedDNSDomains := normalizedDomains\<rparr>, None))"

definition AddExcludedDNSDomains :: "collaborators \<Rightarrow> string list \<Rightarrow> 'a NamePolicyOption" where
  "AddExcludedDNSDomains X domains e =
     (case forRange (dnsDomain X) domains of
        Inl err \<Rightarrow> (e, Some err)
      | Inr normalizedDomains \<Rightarrow>
          (e\<lparr>excludedDNSDomains := excludedDNSDomains e @ normalizedDomains\<rparr>, None))"

definition WithPermittedDNSDomain :: "collaborators \<Rightarrow> string \<Rightarrow> 'a NamePolicyOption" where
  "WithPermittedDNSDomain X domain e =
     (case dnsDomain X domain of
        Inl err \<Rightarrow> (e, Some err)
      | Inr normalizedDomain \<Rightarrow> (e\<lparr>permittedDNSDomains := [normalizedDomain]\<rparr>, None))"

definition AddPermittedDNSDomain :: "collaborators \<Rightarrow> string \<Rightarrow> 'a NamePolicyOption" where
  "AddPermittedDNSDomain X domain e =
     (case dnsDomain X domain of
        Inl err \<Rightarrow> (e, Some err)
      | Inr normalizedDomain \<Rightarrow>
          (e\<lparr>permittedDNSDomains := permittedDNSDomains e @ [normalizedDomain]\<rparr>, None))"

definition WithExcludedDNSDomain :: "collaborators \<Rightarrow> string \<Rightarrow> 'a NamePolicyOption" where
  "WithExcludedDNSDomain X domain e =
     (case dnsDomain X domain of
        Inl err \<Rightarrow> (e, Some err)
      | Inr normalizedDomain \<Rightarrow> (e\<lparr>excludedDNSDomains := [normalizedDomain]\<rparr>, None))"

definition AddExcludedDNSDomain :: "collaborators \<Rightarrow> string \<Rightarrow> 'a NamePolicyOption" where
  "AddExcludedDNSDomain X domain e =
     (case dnsDomain X domain of
        Inl err \<Rightarrow> (e, Some err)
      | Inr normalizedDomain \<Rightarrow>
          (e\<lparr>excludedDNSDomains := excludedDNSDomains e @ [normalizedDomain]\<rparr>, None))"

subsection \<open>IP ranges\<close>

text \<open>
  \<open>net.CIDRMask(ones, bits)\<close>: \<open>nil\<close> (the empty mask) unless \<open>bits\<close> is 32 or 128 and
  \<open>0 \<le> ones \<le> bits\<close>; otherwise \<open>bits / 8\<close> bytes whose first \<open>ones\<close> bits are set.
\<close>

fun maskBytes :: "nat \<Rightarrow> nat \<Rightarrow> byte list" where
  "maskBytes 0 n = []"
| "maskBytes (Suc l) n =
     (if 8 \<le> n then 0xff # maskBytes l (n - 8)
      else NOT (drop_bit n (0xff :: byte)) # maskBytes l 0)"

definition CIDRMask :: "int \<Rightarrow> int \<Rightarrow> IPMask" where
  "CIDRMask ones bits =
     (if bits \<noteq> 32 \<and> bits \<noteq> 128 then []
      else if ones < 0 \<or> bits < ones then []
      else maskBytes (nat (bits div 8)) (nat ones))"

text \<open>
  \<open>ip.To4()\<close>: a 4-byte address as it is; a 16-byte address with the IPv4-in-IPv6 prefix
  (ten zero bytes, then \<open>0xff 0xff\<close>) gives its last four bytes; anything else \<open>nil\<close>.
\<close>

definition To4 :: "IP \<Rightarrow> IP option" where
  "To4 ip =
     (if length ip = 4 then Some ip
      else if length ip = 16 \<and> list_all (\<lambda>b. b = 0) (take 10 ip)
              \<and> ip ! 10 = 0xff \<and> ip ! 11 = 0xff
      then Some (drop 12 ip)
      else None)"

definition isIPv4 :: "IP \<Rightarrow> bool" where
  "isIPv4 ip = (To4 ip \<noteq> None)"

definition networkFor :: "IP \<Rightarrow> IPNet" where
  "networkFor ip =
     (let mask = (if \<not> isIPv4 ip then CIDRMask 128 128 else CIDRMask 32 32)
      in \<lparr>IP = ip, Mask = mask\<rparr>)"

text \<open>
  An option on the IP ranges reads and writes memory through the slices, so in the model it
  takes the memory beside the engine and returns both.  A failing option returns both as
  they were.
\<close>

type_synonym 'a IPRangesOption =
  "memory \<Rightarrow> 'a NamePolicyEngine_scheme
     \<Rightarrow> ('a NamePolicyEngine_scheme \<times> memory) \<times> error option"

text \<open>What the two fields hold, read through their slices.\<close>

definition permittedNetworks :: "'a NamePolicyEngine_scheme \<times> memory \<Rightarrow> IPNetPtr list" where
  "permittedNetworks st = elems (snd st) (permittedIPRanges (fst st))"

definition excludedNetworks :: "'a NamePolicyEngine_scheme \<times> memory \<Rightarrow> IPNetPtr list" where
  "excludedNetworks st = elems (snd st) (excludedIPRanges (fst st))"



text \<open>
  The loop body of the CIDR options; \<open>format\<close> is the message, which says "permitted" or
  "excluded" as the option does.
\<close>

definition parseCIDR :: "collaborators \<Rightarrow> string \<Rightarrow> string \<Rightarrow> error + IPNet" where
  "parseCIDR X format cidr =
     (case net_ParseCIDR X cidr of
        None \<Rightarrow> Inl (Errorf format [cidr])
      | Some nw \<Rightarrow> Inr nw)"

text \<open>
  The options that parse a list fill a local slice \<open>networks\<close>, made with
  \<open>make([]*net.IPNet, len(cidrs))\<close>.  Nothing but the option refers to its array before the
  loop is over, so the model allocates it once the loop has succeeded: the \<open>With\<close> options
  store the new slice, the \<open>Add\<close> options append its elements to the field.
\<close>

definition WithPermittedCIDRs :: "collaborators \<Rightarrow> string list \<Rightarrow> 'a IPRangesOption" where
  "WithPermittedCIDRs X cidrs m e =
     (case forRange (parseCIDR X ''cannot parse permitted CIDR constraint %q'') cidrs of
        Inl err \<Rightarrow> ((e, m), Some err)
      | Inr networks \<Rightarrow>
          (let (m', s) = newSlice m (map Some networks) (length networks)
           in ((e\<lparr>permittedIPRanges := s\<rparr>, m'), None)))"

definition AddPermittedCIDRs :: "collaborators \<Rightarrow> string list \<Rightarrow> 'a IPRangesOption" where
  "AddPermittedCIDRs X cidrs m e =
     (case forRange (parseCIDR X ''cannot parse permitted CIDR constraint %q'') cidrs of
        Inl err \<Rightarrow> ((e, m), Some err)
      | Inr networks \<Rightarrow>
          (let (m', s) = appendSlice (growslice X) m (permittedIPRanges e) (map Some networks)
           in ((e\<lparr>permittedIPRanges := s\<rparr>, m'), None)))"

definition WithExcludedCIDRs :: "collaborators \<Rightarrow> string list \<Rightarrow> 'a IPRangesOption" where
  "WithExcludedCIDRs X cidrs m e =
     (case forRange (parseCIDR X ''cannot parse excluded CIDR constraint %q'') cidrs of
        Inl err \<Rightarrow> ((e, m), Some err)
      | Inr networks \<Rightarrow>
          (let (m', s) = newSlice m (map Some networks) (length networks)
           in ((e\<lparr>excludedIPRanges := s\<rparr>, m'), None)))"

definition AddExcludedCIDRs :: "collaborators \<Rightarrow> string list \<Rightarrow> 'a IPRangesOption" where
  "AddExcludedCIDRs X cidrs m e =
     (case forRange (parseCIDR X ''cannot parse excluded CIDR constraint %q'') cidrs of
        Inl err \<Rightarrow> ((e, m), Some err)
      | Inr networks \<Rightarrow>
          (let (m', s) = appendSlice (growslice X) m (excludedIPRanges e) (map Some networks)
           in ((e\<lparr>excludedIPRanges := s\<rparr>, m'), None)))"

text \<open>
  The loop body of the two IP-or-CIDR options: a CIDR first, else an IP widened by
  \<open>networkFor\<close>, else the error.
\<close>

definition parseIPOrCIDR :: "collaborators \<Rightarrow> string \<Rightarrow> string \<Rightarrow> error + IPNet" where
  "parseIPOrCIDR X format ipOrCIDR =
     (case net_ParseCIDR X ipOrCIDR of
        Some nw \<Rightarrow> Inr nw
      | None \<Rightarrow>
          (case net_ParseIP X ipOrCIDR of
             Some ip \<Rightarrow> Inr (networkFor ip)
           | None \<Rightarrow> Inl (Errorf format [ipOrCIDR])))"

definition WithPermittedIPsOrCIDRs :: "collaborators \<Rightarrow> string list \<Rightarrow> 'a IPRangesOption" where
  "WithPermittedIPsOrCIDRs X ipsOrCIDRs m e =
     (case forRange (parseIPOrCIDR X ''cannot parse permitted constraint %q as IP nor CIDR'') ipsOrCIDRs of
        Inl err \<Rightarrow> ((e, m), Some err)
      | Inr networks \<Rightarrow>
          (let (m', s) = newSlice m (map Some networks) (length networks)
           in ((e\<lparr>permittedIPRanges := s\<rparr>, m'), None)))"

definition WithExcludedIPsOrCIDRs :: "collaborators \<Rightarrow> string list \<Rightarrow> 'a IPRangesOption" where
  "WithExcludedIPsOrCIDRs X ipsOrCIDRs m e =
     (case forRange (parseIPOrCIDR X ''cannot parse excluded constraint %q as IP nor CIDR'') ipsOrCIDRs of
        Inl err \<Rightarrow> ((e, m), Some err)
      | Inr networks \<Rightarrow>
          (let (m', s) = newSlice m (map Some networks) (length networks)
           in ((e\<lparr>excludedIPRanges := s\<rparr>, m'), None)))"



definition WithPermittedIP :: "IP \<Rightarrow> 'a IPRangesOption" where
  "WithPermittedIP ip m e =
     (let nw = networkFor ip;
          (m', s) = newSlice m [Some nw] 1
      in ((e\<lparr>permittedIPRanges := s\<rparr>, m'), None))"

definition AddPermittedIP :: "collaborators \<Rightarrow> IP \<Rightarrow> 'a IPRangesOption" where
  "AddPermittedIP X ip m e =
     (let nw = networkFor ip;
          (m', s) = appendSlice (growslice X) m (permittedIPRanges e) [Some nw]
      in ((e\<lparr>permittedIPRanges := s\<rparr>, m'), None))"





text \<open>The two excluded-IP options build the mask in place instead of calling \<open>networkFor\<close>.\<close>

definition WithExcludedIP :: "IP \<Rightarrow> 'a IPRangesOption" where
  "WithExcludedIP ip m e =
     (let mask = (if \<not> isIPv4 ip then CIDRMask 128 128 else CIDRMask 32 32);
          nw = \<lparr>IP = ip, Mask = mask\<rparr>;
          (m', s) = newSlice m [Some nw] 1
      in ((e\<lparr>excludedIPRanges := s\<rparr>, m'), None))"

definition AddExcludedIP :: "collaborators \<Rightarrow> IP \<Rightarrow> 'a IPRangesOption" where
  "AddExcludedIP X ip m e =
     (let mask = (if \<not> isIPv4 ip then CIDRMask 128 128 else CIDRMask 32 32);
          nw = \<lparr>IP = ip, Mask = mask\<rparr>;
          (m', s) = appendSlice (growslice X) m (excludedIPRanges e) [Some nw]
      in ((e\<lparr>excludedIPRanges := s\<rparr>, m'), None))"

subsection \<open>Email addresses\<close>

text \<open>The email and URI options return the normalizer's error as it is.\<close>

definition WithPermittedEmailAddresses :: "collaborators \<Rightarrow> string list \<Rightarrow> 'a NamePolicyOption" where
  "WithPermittedEmailAddresses X emailAddresses e =
     (case forRange (normalizeAndValidateEmailConstraint X) emailAddresses of
        Inl err \<Rightarrow> (e, Some err)
      | Inr normalizedEmailAddresses \<Rightarrow>
          (e\<lparr>permittedEmailAddresses := normalizedEmailAddresses\<rparr>, None))"

definition AddPermittedEmailAddresses :: "collaborators \<Rightarrow> string list \<Rightarrow> 'a NamePolicyOption" where
  "AddPermittedEmailAddresses X emailAddresses e =
     (case forRange (normalizeAndValidateEmailConstraint X) emailAddresses of
        Inl err \<Rightarrow> (e, Some err)
      | Inr normalizedEmailAddresses \<Rightarrow>
          (e\<lparr>permittedEmailAddresses := permittedEmailAddresses e @ normalizedEmailAddresses\<rparr>, None))"

definition WithExcludedEmailAddresses :: "collaborators \<Rightarrow> string list \<Rightarrow> 'a NamePolicyOption" where
  "WithExcludedEmailAddresses X emailAddresses e =
     (case forRange (normalizeAndValidateEmailConstraint X) emailAddresses of
        Inl err \<Rightarrow> (e, Some err)
      | Inr normalizedEmailAddresses \<Rightarrow>
          (e\<lparr>excludedEmailAddresses := normalizedEmailAddresses\<rparr>, None))"

definition AddExcludedEmailAddresses :: "collaborators \<Rightarrow> string list \<Rightarrow> 'a NamePolicyOption" where
  "AddExcludedEmailAddresses X emailAddresses e =
     (case forRange (normalizeAndValidateEmailConstraint X) emailAddresses of
        Inl err \<Rightarrow> (e, Some err)
      | Inr normalizedEmailAddresses \<Rightarrow>
          (e\<lparr>excludedEmailAddresses := excludedEmailAddresses e @ normalizedEmailAddresses\<rparr>, None))"





subsection \<open>URI domains\<close>

definition WithPermittedURIDomains :: "collaborators \<Rightarrow> string list \<Rightarrow> 'a NamePolicyOption" where
  "WithPermittedURIDomains X uriDomains e =
     (case forRange (normalizeAndValidateURIDomainConstraint X) uriDomains of
        Inl err \<Rightarrow> (e, Some err)
      | Inr normalizedURIDomains \<Rightarrow>
          (e\<lparr>permittedURIDomains := normalizedURIDomains\<rparr>, None))"

definition AddPermittedURIDomains :: "collaborators \<Rightarrow> string list \<Rightarrow> 'a NamePolicyOption" where
  "AddPermittedURIDomains X uriDomains e =
     (case forRange (normalizeAndValidateURIDomainConstraint X) uriDomains of
        Inl err \<Rightarrow> (e, Some err)
      | Inr normalizedURIDomains \<Rightarrow>
          (e\<lparr>permittedURIDomains := permittedURIDomains e @ normalizedURIDomains\<rparr>, None))"



definition WithExcludedURIDomains :: "collaborators \<Rightarrow> string list \<Rightarrow> 'a NamePolicyOption" where
  "WithExcludedURIDomains X uriDomains e =
     (case forRange (normalizeAndValidateURIDomainConstraint X) uriDomains of
        Inl err \<Rightarrow> (e, Some err)
      | Inr normalizedURIDomains \<Rightarrow>
          (e\<lparr>excludedURIDomains := normalizedURIDomains\<rparr>, None))"

definition AddExcludedURIDomains :: "collaborators \<Rightarrow> string list \<Rightarrow> 'a NamePolicyOption" where
  "AddExcludedURIDomains X uriDomains e =
     (case forRange (normalizeAndValidateURIDomainConstraint X) uriDomains of
        Inl err \<Rightarrow> (e, Some err)
      | Inr normalizedURIDomains \<Rightarrow>
          (e\<lparr>excludedURIDomains := excludedURIDomains e @ normalizedURIDomains\<rparr>, None))"



subsection \<open>Principals\<close>



section \<open>Management errors (\<open>authority/mgmt/errors.go\<close>)\<close>

text \<open>\<open>type ProblemType int\<close> with its four constants, numbered by \<open>iota\<close>.\<close>

type_synonym ProblemType = int

definition ErrorNotFoundType :: ProblemType where
  "ErrorNotFoundType = 0"

definition ErrorAuthorityMismatchType :: ProblemType where
  "ErrorAuthorityMismatchType = 1"

definition ErrorDeletedType :: ProblemType where
  "ErrorDeletedType = 2"

definition ErrorServerInternalType :: ProblemType where
  "ErrorServerInternalType = 3"

text \<open>The decimal text of an \<open>int\<close>, which \<open>%d\<close> prints.\<close>

fun digits :: "nat \<Rightarrow> string" where
  "digits n =
     (if n < 10 then [char_of (48 + n)]
      else digits (n div 10) @ [char_of (48 + n mod 10)])"

declare digits.simps [simp del]

definition decimal :: "int \<Rightarrow> string" where
  "decimal i = (if i < 0 then ''-'' @ digits (nat (- i)) else digits (nat i))"

definition ProblemType_String :: "ProblemType \<Rightarrow> string" where
  "ProblemType_String ap =
     (if ap = ErrorNotFoundType then ''notFound''
      else if ap = ErrorAuthorityMismatchType then ''authorityMismatch''
      else if ap = ErrorDeletedType then ''deleted''
      else if ap = ErrorServerInternalType then ''internalServerError''
      else ''unsupported error type '' @ [CHR 0x27] @ decimal ap @ [CHR 0x27])"

text \<open>
  The struct \<open>errorMetadata\<close>.  Its field \<open>typ\<close> is \<open>metaTyp\<close> here (\<open>typ\<close> is a
  reserved word of Isabelle).  Its field \<open>String\<close> is never set: it holds Go's zero value.
\<close>

record errorMetadata =
  details :: string
  status :: int
  metaTyp :: string
  String :: string

definition errorServerInternalMetadata :: errorMetadata where
  "errorServerInternalMetadata =
     \<lparr>details = ''the server experienced an internal error'',
      status = 500,
      metaTyp = ProblemType_String ErrorServerInternalType,
      String = []\<rparr>"

definition errorMap :: "ProblemType \<rightharpoonup> errorMetadata" where
  "errorMap =
     [ErrorNotFoundType \<mapsto>
        \<lparr>details = ''resource not found'', status = 400,
         metaTyp = ProblemType_String ErrorNotFoundType, String = []\<rparr>,
      ErrorAuthorityMismatchType \<mapsto>
        \<lparr>details = ''resource not owned by authority'', status = 401,
         metaTyp = ProblemType_String ErrorAuthorityMismatchType, String = []\<rparr>,
      ErrorDeletedType \<mapsto>
        \<lparr>details = ''resource is deleted'', status = 403,
         metaTyp = ProblemType_String ErrorNotFoundType, String = []\<rparr>,
      ErrorServerInternalType \<mapsto> errorServerInternalMetadata]"

text \<open>
  The struct \<open>Error\<close>; \<open>Subproblems\<close> and \<open>Identifier\<close> are never set by the constructors and
  are left out.  \<open>Err\<close> is the wrapped Go error.
\<close>

record Error =
  Type :: string
  Detail :: string
  Err :: "error option"
  Status :: int

definition IsType :: "Error \<Rightarrow> ProblemType \<Rightarrow> bool" where
  "IsType e pt = (ProblemType_String pt = Type e)"

definition newError :: "ProblemType \<Rightarrow> error \<Rightarrow> Error" where
  "newError pt err =
     (case errorMap pt of
        None \<Rightarrow>
          (let meta = errorServerInternalMetadata
           in \<lparr>Type = metaTyp meta, Detail = details meta, Err = Some err, Status = status meta\<rparr>)
      | Some meta \<Rightarrow>
          \<lparr>Type = metaTyp meta, Detail = details meta, Err = Some err, Status = status meta\<rparr>)"

definition NewError :: "ProblemType \<Rightarrow> string \<Rightarrow> string list \<Rightarrow> Error" where
  "NewError pt msg args = newError pt (Errorf msg args)"

section \<open>Provisioners in the database (\<open>authority/mgmt/db/nosql/provisioner.go\<close>)\<close>

text \<open>
  \<open>time.Time\<close> is the distance from the zero instant, which is what \<open>IsZero\<close> tests.
  \<open>mgmt.Claims\<close> is opaque, and the field \<open>Claims\<close> is a pointer to it that may be \<open>nil\<close>.
  The parameter \<open>id\<close> of the functions is \<open>id'\<close> here.
  The fields of \<open>dbProvisioner\<close> carry the prefix \<open>dbp_\<close> and those of \<open>mgmt.Provisioner\<close>
  (declared in package mgmt; the fields are the ones this file reads) the prefix \<open>prov_\<close>.
\<close>

type_synonym Time = int

definition IsZero :: "Time \<Rightarrow> bool" where
  "IsZero t = (t = 0)"

typedecl Claims

record dbProvisioner =
  dbp_ID :: string
  dbp_AuthorityID :: string
  dbp_Type :: string
  dbp_Name :: string
  dbp_Claims :: "Claims option"
  dbp_Details :: "byte list"
  dbp_X509Template :: string
  dbp_X509TemplateData :: "byte list"
  dbp_SSHTemplate :: string
  dbp_SSHTemplateData :: "byte list"
  dbp_CreatedAt :: Time
  dbp_DeletedAt :: Time

datatype StatusType = StatusActive | StatusDeleted

record Provisioner =
  prov_ID :: string
  prov_AuthorityID :: string
  prov_Type :: string
  prov_Name :: string
  prov_Claims :: "Claims option"
  prov_Details :: "byte list"
  prov_X509Template :: string
  prov_X509TemplateData :: "byte list"
  prov_SSHTemplate :: string
  prov_SSHTemplateData :: "byte list"
  prov_Status :: StatusType

definition clone :: "dbProvisioner \<Rightarrow> dbProvisioner" where
  "clone dbp = (let u = dbp in u)"

text \<open>
  What \<open>db.db.Get(authorityProvisionersTable, []byte(id))\<close> returns: the bytes, an error
  for which \<open>nosql.IsErrNotFound\<close> holds, or another error.
\<close>

datatype getResult = Found "byte list" | NotFound | GetFailed error

text \<open>
  The struct \<open>DB\<close>: the authority it serves and the table of provisioners, read through
  \<open>Get\<close>.  \<open>json_Unmarshal\<close> is \<open>json.Unmarshal\<close> into a \<open>dbProvisioner\<close>.
\<close>

record DB =
  authorityID :: string
  db_Get :: "string \<Rightarrow> getResult"
  json_Unmarshal :: "byte list \<Rightarrow> error + dbProvisioner"

text \<open>An \<open>error\<close> these functions return is a \<open>*mgmt.Error\<close> or a wrapped library error.\<close>

datatype dbError = MgmtError Error | WrappedError error

definition getDBProvisionerBytes :: "DB \<Rightarrow> string \<Rightarrow> dbError + byte list" where
  "getDBProvisionerBytes db id' =
     (case db_Get db id' of
        NotFound \<Rightarrow> Inl (MgmtError (NewError ErrorNotFoundType ''provisioner %s not found'' [id']))
      | GetFailed err \<Rightarrow> Inl (WrappedError (Wrapf err ''error loading provisioner %s'' [id']))
      | Found data \<Rightarrow> Inr data)"

definition unmarshalDBProvisioner :: "DB \<Rightarrow> byte list \<Rightarrow> string \<Rightarrow> dbError + dbProvisioner" where
  "unmarshalDBProvisioner db data id' =
     (case json_Unmarshal db data of
        Inl err \<Rightarrow>
          Inl (WrappedError (Wrapf err ''error unmarshaling provisioner %s into dbProvisioner'' [id']))
      | Inr dbp \<Rightarrow> Inr dbp)"

definition getDBProvisioner :: "DB \<Rightarrow> string \<Rightarrow> dbError + dbProvisioner" where
  "getDBProvisioner db id' =
     (case getDBProvisionerBytes db id' of
        Inl err \<Rightarrow> Inl err
      | Inr data \<Rightarrow>
          (case unmarshalDBProvisioner db data id' of
             Inl err \<Rightarrow> Inl err
           | Inr dbp \<Rightarrow>
               if dbp_AuthorityID dbp \<noteq> authorityID db then
                 Inl (MgmtError (NewError ErrorAuthorityMismatchType
                        ''provisioner %s is not owned by authority %s'' [dbp_ID dbp, authorityID db]))
               else Inr dbp))"

text \<open>
  \<open>UpdateProvisioner\<close> ends in \<open>return db.save(ctx, old.ID, nu, old, "provisioner", table)\<close>;
  \<open>save\<close> is defined in another file.  The model returns the arguments of that call: the
  key, the record to write and the record it replaces.  \<open>now\<close> is what \<open>clock.Now()\<close> gives.
\<close>

record saveCall =
  save_id :: string
  save_nu :: dbProvisioner
  save_old :: dbProvisioner

definition UpdateProvisioner :: "DB \<Rightarrow> Time \<Rightarrow> Provisioner \<Rightarrow> dbError + saveCall" where
  "UpdateProvisioner db now prov =
     (case getDBProvisioner db (prov_ID prov) of
        Inl err \<Rightarrow> Inl err
      | Inr old \<Rightarrow>
          (let nu = clone old;
               nu = (if IsZero (dbp_DeletedAt old) \<and> prov_Status prov = StatusDeleted
                     then nu\<lparr>dbp_DeletedAt := now\<rparr> else nu);
               nu = nu\<lparr>dbp_Claims := prov_Claims prov\<rparr>;
               nu = nu\<lparr>dbp_Details := prov_Details prov\<rparr>;
               nu = nu\<lparr>dbp_X509Template := prov_X509Template prov\<rparr>;
               nu = nu\<lparr>dbp_SSHTemplate := prov_SSHTemplate prov\<rparr>
           in Inr \<lparr>save_id = dbp_ID old, save_nu = nu, save_old = old\<rparr>))"

section \<open>Stand-ins for the collaborators, for evaluating the options on concrete inputs\<close>

text \<open>
  The theorems below hold for every value of the parameters (under the hypotheses they
  state).  To run an option on a concrete input the parameters need values; the stand-ins
  of this section agree with the real functions on the inputs that are evaluated.
\<close>

fun splitOn :: "char \<Rightarrow> string \<Rightarrow> string list" where
  "splitOn sep [] = [[]]"
| "splitOn sep (c # cs) =
     (if c = sep then [] # splitOn sep cs
      else (case splitOn sep cs of [] \<Rightarrow> [[c]] | l # ls \<Rightarrow> (c # l) # ls))"

text \<open>
  \<open>idna.Lookup.ToASCII\<close> returns a string of lower-case ASCII letters, digits and dots
  as it is; the stand-in knows no other string.
\<close>

definition plainAlphabet :: string where
  "plainAlphabet = ''abcdefghijklmnopqrstuvwxyz0123456789.''"

definition standInToASCII :: "string \<Rightarrow> error + string" where
  "standInToASCII s =
     (if list_all (\<lambda>c. c \<in> set plainAlphabet) s then Inr s
      else Inl (LibraryError ''idna: outside the stand-in''))"

text \<open>
  Modelled from the spec: \<open>domainToReverseLabels\<close> of package policy, which is not in
  \<open>options.go\<close>.  The spec: "parse the ASCII result into a non-empty ordered list of
  dot-separated labels (reversed, i.e., TLD first) -- failure (e.g., unparseable label
  structure) is an error".  A leading dot, which marks a subdomain-only constraint, adds
  no label; an empty label (two dots in a row, a dot at the end) or a byte outside
  printable ASCII is a failure.
\<close>

definition standInDomainToReverseLabels :: "string \<Rightarrow> string list option" where
  "standInDomainToReverseLabels s =
     (if s = [] \<or> Contains s ''..'' \<or> last s = CHR ''.''
         \<or> list_ex (\<lambda>c. (of_char c :: nat) < 33 \<or> 126 < (of_char c :: nat)) s
      then None
      else Some (rev (splitOn (CHR ''.'') (if prefix ''.'' s then drop 1 s else s))))"

text \<open>
  Modelled from the spec: \<open>parseRFC2821Mailbox\<close> of package policy, which is not in
  \<open>options.go\<close>.  The spec: "split into local-part and domain using RFC 2821 mailbox
  grammar (failure is an error)".  The stand-in splits at the first \<open>@\<close> and wants both
  parts non-empty; it does not read quoted local parts.
\<close>

definition standInParseRFC2821Mailbox :: "string \<Rightarrow> rfc2821Mailbox option" where
  "standInParseRFC2821Mailbox s =
     (let l = takeWhile (\<lambda>c. c \<noteq> CHR ''@'') s;
          d = drop 1 (dropWhile (\<lambda>c. c \<noteq> CHR ''@'') s)
      in if l = [] \<or> d = [] \<or> CHR 0x22 \<in> set s then None
         else Some \<lparr>mailbox_local = l, mailbox_domain = d\<rparr>)"

text \<open>Decimal numbers without sign or leading zero, for dotted-quad addresses.\<close>

definition digitValue :: "char \<Rightarrow> nat" where
  "digitValue c = (of_char c :: nat) - 48"

definition isDigit :: "char \<Rightarrow> bool" where
  "isDigit c = (48 \<le> (of_char c :: nat) \<and> (of_char c :: nat) \<le> 57)"

definition parseDecimal :: "string \<Rightarrow> nat option" where
  "parseDecimal s =
     (if s = [] \<or> 3 < length s \<or> \<not> list_all isDigit s \<or> (1 < length s \<and> hd s = CHR ''0'')
      then None
      else Some (foldl (\<lambda>n c. 10 * n + digitValue c) 0 s))"

definition parseIPv4 :: "string \<Rightarrow> IP option" where
  "parseIPv4 s =
     (case map parseDecimal (splitOn (CHR ''.'') s) of
        [Some a, Some b, Some c, Some d] \<Rightarrow>
          if a < 256 \<and> b < 256 \<and> c < 256 \<and> d < 256
          then Some [of_nat a, of_nat b, of_nat c, of_nat d] else None
      | _ \<Rightarrow> None)"

text \<open>
  \<open>net.ParseIP\<close> on a dotted-quad IPv4 address gives its 16-byte form; \<open>net.ParseCIDR\<close> on
  \<open>a.b.c.d/n\<close> gives the 4-byte network address and the mask of \<open>n\<close> bits.  The stand-ins do
  not read IPv6 text.
\<close>

definition standInParseIP :: "string \<Rightarrow> IP option" where
  "standInParseIP s =
     (case parseIPv4 s of
        None \<Rightarrow> None
      | Some v4 \<Rightarrow> Some (replicate 10 0 @ [0xff, 0xff] @ v4))"

definition standInParseCIDR :: "string \<Rightarrow> IPNet option" where
  "standInParseCIDR s =
     (case splitOn (CHR ''/'') s of
        [addr, n] \<Rightarrow>
          (case (parseIPv4 addr, parseDecimal n) of
             (Some ip, Some ones) \<Rightarrow>
               if ones \<le> 32
               then Some \<lparr>IP = map2 (\<lambda>a m. a AND m) ip (CIDRMask (int ones) 32),
                          Mask = CIDRMask (int ones) 32\<rparr>
               else None
           | _ \<Rightarrow> None)
      | _ \<Rightarrow> None)"

text \<open>\<open>net.SplitHostPort\<close> on text without brackets: exactly one colon splits host and port.\<close>

definition standInSplitHostPort :: "string \<Rightarrow> (string \<times> string) option" where
  "standInSplitHostPort s =
     (case splitOn (CHR '':'') s of [host, port] \<Rightarrow> Some (host, port) | _ \<Rightarrow> None)"

definition standIns :: collaborators where
  "standIns =
     \<lparr>unicode_ToLower = (\<lambda>s. s),
      idna_ToASCII = standInToASCII,
      domainToReverseLabels = standInDomainToReverseLabels,
      parseRFC2821Mailbox = standInParseRFC2821Mailbox,
      net_ParseCIDR = standInParseCIDR,
      net_ParseIP = standInParseIP,
      net_SplitHostPort = standInSplitHostPort,
      growslice = (\<lambda>oldCap needed. max needed (2 * oldCap))\<rparr>"

text \<open>An engine with nothing configured.\<close>

definition emptyEngine :: NamePolicyEngine where
  "emptyEngine =
     \<lparr>verifySubjectCommonName = False, allowLiteralWildcardNames = False,
      permittedDNSDomains = [], excludedDNSDomains = [],
      permittedIPRanges = nilSlice, excludedIPRanges = nilSlice,
      permittedEmailAddresses = [], excludedEmailAddresses = [],
      permittedURIDomains = [], excludedURIDomains = [],
      permittedPrincipals = [], excludedPrincipals = []\<rparr>"

text \<open>
  A memory with no array, and a memory as a caller may have set it up: array 0 is
  \<open>backing\<close>, made with \<open>make([]*net.IPNet, 2)\<close> and filled with two networks, array 1 holds
  one further network.  \<open>backingLow\<close> is \<open>backing[0:1]\<close> (one element, capacity two),
  \<open>backingHigh\<close> is \<open>backing[1:2]\<close>, and \<open>further\<close> is the slice over array 1.
\<close>

definition emptyMemory :: memory where
  "emptyMemory = \<lparr>cells = (\<lambda>a j. None), allocated = 0\<rparr>"









text \<open>
  The constraint that is the soft hyphen U+00AD alone, in UTF-8.  U+00AD is an ignored
  code point of the IDNA mapping: \<open>idna.Lookup.ToASCII\<close> drops it and returns the empty
  string without an error, and \<open>domainToReverseLabels\<close> of package policy returns no label
  and \<open>ok\<close> for the empty string.  \<open>softHyphenCollaborators\<close> are the stand-ins with these
  two values added.
\<close>

definition softHyphen :: string where
  "softHyphen = [CHR 0xC2, CHR 0xAD]"

definition softHyphenCollaborators :: collaborators where
  "softHyphenCollaborators =
     standIns
       \<lparr>idna_ToASCII := (\<lambda>s. if s = softHyphen then Inr [] else standInToASCII s),
        domainToReverseLabels :=
          (\<lambda>s. if s = [] then Some [] else standInDomainToReverseLabels s)\<rparr>"

text \<open>
  A database with one provisioner \<open>p1\<close> of authority \<open>a1\<close>, created at time 5; \<open>deletedAt\<close>
  is the time of its deletion, 0 while it is active.
\<close>

definition storedProvisioner :: "Time \<Rightarrow> dbProvisioner" where
  "storedProvisioner deletedAt =
     \<lparr>dbp_ID = ''p1'', dbp_AuthorityID = ''a1'', dbp_Type = ''JWK'', dbp_Name = ''first'',
      dbp_Claims = None, dbp_Details = [], dbp_X509Template = [], dbp_X509TemplateData = [],
      dbp_SSHTemplate = [], dbp_SSHTemplateData = [], dbp_CreatedAt = 5,
      dbp_DeletedAt = deletedAt\<rparr>"

definition oneProvisionerDB :: "Time \<Rightarrow> DB" where
  "oneProvisionerDB deletedAt =
     \<lparr>authorityID = ''a1'',
      db_Get = (\<lambda>k. if k = ''p1'' then Found [] else NotFound),
      json_Unmarshal = (\<lambda>data. Inr (storedProvisioner deletedAt))\<rparr>"

definition updateRequest :: "StatusType \<Rightarrow> Provisioner" where
  "updateRequest st =
     \<lparr>prov_ID = ''p1'', prov_AuthorityID = ''other'', prov_Type = ''OIDC'', prov_Name = ''renamed'',
      prov_Claims = None, prov_Details = [1, 2], prov_X509Template = ''t'',
      prov_X509TemplateData = [], prov_SSHTemplate = ''s'', prov_SSHTemplateData = [],
      prov_Status = st\<rparr>"

section \<open>Evaluating the string functions\<close>

lemmas string_evals =
  trimLower_def ToLower_def TrimSpace_def leadingSpace_def unicodeSpaces_def
  trimLeading.simps isASCII_def lowerByte_def isUpperASCII_def char_of_def bit_0
  Count_def HasPrefix_def

lemmas problem_types =
  ErrorNotFoundType_def ErrorAuthorityMismatchType_def ErrorDeletedType_def
  ErrorServerInternalType_def

section \<open>Facts about the string functions\<close>

lemma Contains_byte: "Contains s [c] = (c \<in> set s)"
  by (induction s) auto

lemma LastIndex_byte_nonneg: "(0 \<le> LastIndex s [c]) = (c \<in> set s)"
  by (induction s) auto

lemma LastIndex_byte_pos: "(0 < LastIndex s [c]) = (c \<in> set (tl s))"
proof (cases s)
  case Nil
  then show ?thesis by simp
next
  case (Cons x xs)
  have "(0 < LastIndex (x # xs) [c]) = (0 \<le> LastIndex xs [c])"
    by simp
  with Cons show ?thesis by (simp add: LastIndex_byte_nonneg)
qed

lemma trimLeading_none: "leadingSpace ws s = 0 \<Longrightarrow> trimLeading ws s = s"
  by (subst trimLeading.simps) simp

lemma trimLeading_is_drop: "\<exists>k. trimLeading ws s = drop k s"
proof (induction ws s rule: trimLeading.induct)
  case (1 ws s)
  show ?case
  proof (cases "leadingSpace ws s = 0")
    case True
    then have "trimLeading ws s = drop 0 s" by (simp add: trimLeading_none)
    then show ?thesis by blast
  next
    case False
    from "1" [OF False] obtain k where "trimLeading ws (drop (leadingSpace ws s) s)
        = drop k (drop (leadingSpace ws s) s)" ..
    with False have "trimLeading ws s = drop (leadingSpace ws s + k) s"
      by (subst trimLeading.simps) (simp add: add.commute)
    then show ?thesis by blast
  qed
qed

lemma leadingSpace_prefix:
  assumes "leadingSpace ws s \<noteq> 0"
  shows "\<exists>w \<in> set ws. prefix w s \<and> leadingSpace ws s = length w"
proof -
  from assms obtain w where f: "find (\<lambda>w. prefix w s) ws = Some w"
    and l: "leadingSpace ws s = length w"
    by (cases "find (\<lambda>w. prefix w s) ws") (auto simp: leadingSpace_def)
  from f have "w \<in> set ws" and "prefix w s"
    by (auto simp: find_Some_iff)
  with l show ?thesis by blast
qed

lemma leadingSpace_0I:
  "(\<And>w. w \<in> set ws \<Longrightarrow> \<not> prefix w s) \<Longrightarrow> leadingSpace ws s = 0"
  using leadingSpace_prefix by blast

text \<open>Printable ASCII, the bytes 33 to 126: what a label of a domain may consist of.\<close>

lemma printable_not_space_start:
  assumes "33 \<le> (of_char c :: nat)" and "(of_char c :: nat) \<le> 126"
  shows "\<forall>w \<in> set unicodeSpaces. hd w \<noteq> c \<and> w \<noteq> []"
  using assms by (auto simp: unicodeSpaces_def)

lemma printable_not_space_end:
  assumes "33 \<le> (of_char c :: nat)" and "(of_char c :: nat) \<le> 126"
  shows "\<forall>w \<in> set (map rev unicodeSpaces). hd w \<noteq> c \<and> w \<noteq> []"
  using assms by (auto simp: unicodeSpaces_def)

lemma no_prefix_by_head:
  assumes "\<forall>w \<in> set ws. hd w \<noteq> c \<and> w \<noteq> []"
  shows "leadingSpace ws (c # cs) = 0"
proof (rule leadingSpace_0I)
  fix w assume w: "w \<in> set ws"
  with assms have "hd w \<noteq> c" and "w \<noteq> []" by auto
  then show "\<not> prefix w (c # cs)" by (cases w) auto
qed

lemma TrimSpace_printable_ends:
  assumes "s \<noteq> []"
    and "33 \<le> (of_char (hd s) :: nat)" and "(of_char (hd s) :: nat) \<le> 126"
    and "33 \<le> (of_char (last s) :: nat)" and "(of_char (last s) :: nat) \<le> 126"
  shows "TrimSpace s = s"
proof -
  from assms(1) obtain c cs where s: "s = c # cs" by (cases s) auto
  with assms(2,3) have "leadingSpace unicodeSpaces s = 0"
    using no_prefix_by_head [OF printable_not_space_start] by simp
  then have a: "trimLeading unicodeSpaces s = s" by (rule trimLeading_none)
  from assms(1) have r: "rev s = last s # rev (butlast s)"
    by (metis append_butlast_last_id rev.simps(2) rev_append rev_rev_ident append_Cons append_Nil)
  have "leadingSpace (map rev unicodeSpaces) (rev s) = 0"
    unfolding r by (rule no_prefix_by_head [OF printable_not_space_end [OF assms(4,5)]])
  then have b: "trimLeading (map rev unicodeSpaces) (rev s) = rev s"
    by (rule trimLeading_none)
  from a b show ?thesis by (simp add: TrimSpace_def)
qed

lemma list_all_TrimSpace: "list_all P s \<Longrightarrow> list_all P (TrimSpace s)"
proof -
  assume P: "list_all P s"
  obtain k where k: "trimLeading unicodeSpaces s = drop k s"
    using trimLeading_is_drop by blast
  obtain j where j: "trimLeading (map rev unicodeSpaces) (rev (drop k s)) = drop j (rev (drop k s))"
    using trimLeading_is_drop by blast
  have "set (TrimSpace s) \<subseteq> set s"
    unfolding TrimSpace_def k j
    by (metis set_drop_subset set_rev subset_trans)
  with P show ?thesis by (auto simp: list_all_iff)
qed

lemma lowerByte_fixed: "\<not> isUpperASCII c \<Longrightarrow> lowerByte c = c"
  by (simp add: lowerByte_def)

lemma ToLower_fixed:
  assumes "list_all isASCII s" and "\<not> list_ex isUpperASCII s"
  shows "ToLower f s = s"
proof -
  from assms(2) have "map lowerByte s = s"
    by (induction s) (simp_all add: lowerByte_fixed)
  with assms(1) show ?thesis by (simp add: ToLower_def)
qed

text \<open>A string that begins with \<open>*.\<close> keeps that beginning when it is trimmed.\<close>

lemma space_has_no_dot:
  "\<forall>w \<in> set (map rev unicodeSpaces). CHR ''.'' \<notin> set w \<and> CHR ''*'' \<notin> set w"
  by (simp add: unicodeSpaces_def)

lemma trimLeading_keeps_tail:
  "\<exists>u. trimLeading (map rev unicodeSpaces) (x @ ''.*'') = u @ ''.*''"
proof (induction "length x" arbitrary: x rule: less_induct)
  case less
  let ?ws = "map rev unicodeSpaces"
  show ?case
  proof (cases "leadingSpace ?ws (x @ ''.*'') = 0")
    case True
    then show ?thesis by (metis trimLeading_none)
  next
    case False
    from leadingSpace_prefix [OF False] obtain w where w: "w \<in> set ?ws"
      and p: "prefix w (x @ ''.*'')" and l: "leadingSpace ?ws (x @ ''.*'') = length w"
      by blast
    from w space_has_no_dot have nd: "CHR ''.'' \<notin> set w" and ns: "CHR ''*'' \<notin> set w"
      by blast+
    from w have ne: "w \<noteq> []" by (auto simp: unicodeSpaces_def)
    have px: "prefix w x"
    proof (rule ccontr)
      assume "\<not> prefix w x"
      with p obtain us where us: "w = x @ us" and "prefix us ''.*''" and "us \<noteq> []"
        by (auto simp: prefix_append)
      then have "hd us = CHR ''.''" by (cases us) auto
      with \<open>us \<noteq> []\<close> us have "CHR ''.'' \<in> set w" by (cases us) auto
      with nd show False by contradiction
    qed
    then obtain y where x: "x = w @ y" by (auto simp: prefix_def)
    with ne have "length y < length x" by simp
    from less [OF this] obtain u where u: "trimLeading ?ws (y @ ''.*'') = u @ ''.*''" ..
    have "trimLeading ?ws (x @ ''.*'') = trimLeading ?ws (drop (length w) (x @ ''.*''))"
      using False l by (subst trimLeading.simps) simp
    also have "drop (length w) (x @ ''.*'') = y @ ''.*''" using x by simp
    finally show ?thesis using u by simp
  qed
qed

lemma TrimSpace_keeps_wildcard_prefix:
  assumes "prefix ''*.'' s"
  shows "prefix ''*.'' (TrimSpace s)"
proof -
  from assms obtain r where s: "s = ''*.'' @ r" by (auto simp: prefix_def)
  have "leadingSpace unicodeSpaces (CHR ''*'' # CHR ''.'' # r) = 0"
    by (rule no_prefix_by_head [OF printable_not_space_start]) simp_all
  with s have a: "trimLeading unicodeSpaces s = s" by (simp add: trimLeading_none)
  have "rev s = rev r @ ''.*''" using s by simp
  with trimLeading_keeps_tail [of "rev r"] obtain u
    where "trimLeading (map rev unicodeSpaces) (rev s) = u @ ''.*''" by auto
  with a have "TrimSpace s = ''*.'' @ rev u" by (simp add: TrimSpace_def)
  then show ?thesis by simp
qed

lemma trimLower_keeps_wildcard_prefix:
  assumes "list_all isASCII c" and "prefix ''*.'' c"
  shows "prefix ''*.'' (trimLower X c)"
proof -
  from assms(1) have ascii: "list_all isASCII (TrimSpace c)" by (rule list_all_TrimSpace)
  from TrimSpace_keeps_wildcard_prefix [OF assms(2)] obtain r
    where r: "TrimSpace c = ''*.'' @ r" by (auto simp: prefix_def)
  have "map lowerByte (TrimSpace c) = ''*.'' @ map lowerByte r"
    unfolding r by (simp add: lowerByte_def isUpperASCII_def)
  with ascii show ?thesis by (simp add: trimLower_def ToLower_def)
qed

section \<open>The loop of the multi-value options\<close>

lemma forRange_fails:
  "list_ex (\<lambda>x. isl (f x)) xs \<Longrightarrow> \<exists>err. forRange f xs = Inl err"
proof (induction xs)
  case Nil
  then show ?case by simp
next
  case (Cons x xs)
  show ?case
  proof (cases "f x")
    case (Inl err)
    then show ?thesis by simp
  next
    case (Inr y)
    with Cons.prems have "list_ex (\<lambda>x. isl (f x)) xs" by simp
    from Cons.IH [OF this] obtain err where "forRange f xs = Inl err" ..
    with Inr show ?thesis by simp
  qed
qed

lemma forRange_Inl:
  "forRange f xs = Inl err \<Longrightarrow> \<exists>x \<in> set xs. f x = Inl err"
  by (induction xs) (auto split: sum.splits)

lemma forRange_Inr:
  "forRange f xs = Inr ys \<Longrightarrow>
     length ys = length xs \<and> (\<forall>i < length xs. f (xs ! i) = Inr (ys ! i))"
proof (induction xs arbitrary: ys)
  case Nil
  then show ?case by simp
next
  case (Cons x xs)
  from Cons.prems obtain y ys' where y: "f x = Inr y" and ys': "forRange f xs = Inr ys'"
    and ys: "ys = y # ys'"
    by (auto split: sum.splits)
  from Cons.IH [OF ys'] have len: "length ys' = length xs"
    and nth: "\<forall>i < length xs. f (xs ! i) = Inr (ys' ! i)" by simp_all
  show ?case
  proof (intro conjI allI impI)
    show "length ys = length (x # xs)" using len ys by simp
  next
    fix i assume "i < length (x # xs)"
    then show "f ((x # xs) ! i) = Inr (ys ! i)"
      using y nth ys by (cases i) simp_all
  qed
qed

lemma forRange_succeeds:
  "\<not> list_ex (\<lambda>x. isl (f x)) xs \<Longrightarrow> \<exists>ys. forRange f xs = Inr ys"
proof (induction xs)
  case Nil
  then show ?case by simp
next
  case (Cons x xs)
  then obtain y where y: "f x = Inr y" by (cases "f x") simp_all
  from Cons obtain ys where "forRange f xs = Inr ys" by auto
  with y show ?case by simp
qed

lemma isl_dnsDomain:
  "isl (dnsDomain X d) = isl (normalizeAndValidateDNSDomainConstraint X d)"
  by (simp add: dnsDomain_def split: sum.splits)

lemma isl_parseCIDR:
  "isl (parseCIDR X format c) = (net_ParseCIDR X c = None)"
  by (simp add: parseCIDR_def split: option.splits)

lemma isl_parseIPOrCIDR:
  "isl (parseIPOrCIDR X format s) = (net_ParseCIDR X s = None \<and> net_ParseIP X s = None)"
  by (simp add: parseIPOrCIDR_def split: option.splits)

lemma dns_loop_fails:
  "list_ex (\<lambda>d. isl (normalizeAndValidateDNSDomainConstraint X d)) domains \<Longrightarrow>
     \<exists>err. forRange (dnsDomain X) domains = Inl err"
  by (rule forRange_fails) (simp add: isl_dnsDomain)

lemma cidr_loop_fails:
  "list_ex (\<lambda>c. net_ParseCIDR X c = None) cidrs \<Longrightarrow>
     \<exists>err. forRange (parseCIDR X format) cidrs = Inl err"
  by (rule forRange_fails) (simp add: isl_parseCIDR)

lemma ipOrCIDR_loop_fails:
  "list_ex (\<lambda>s. net_ParseCIDR X s = None \<and> net_ParseIP X s = None) ipsOrCIDRs \<Longrightarrow>
     \<exists>err. forRange (parseIPOrCIDR X format) ipsOrCIDRs = Inl err"
  by (rule forRange_fails) (simp add: isl_parseIPOrCIDR)

section \<open>Panics of the normalizers\<close>

text \<open>
  The DNS normalizer panics on exactly the inputs whose trimmed, lower-cased form is the
  single character \<open>*\<close>, the email normalizer on exactly those whose form is \<open>@\<close>, and
  the URI normalizer never.
\<close>

lemma dns_panics_iff:
  "(\<exists>err. normalizeAndValidateDNSDomainConstraint X c = Inl err \<and> isPanic err)
     = (trimLower X c = ''*'')"
proof
  assume "\<exists>err. normalizeAndValidateDNSDomainConstraint X c = Inl err \<and> isPanic err"
  then obtain err where e: "normalizeAndValidateDNSDomainConstraint X c = Inl err"
    and pn: "isPanic err" by blast
  from e pn have "trimLower X c ! 0 = CHR ''*''" and "length (trimLower X c) \<le> 1"
    and "trimLower X c \<noteq> []"
    unfolding normalizeAndValidateDNSDomainConstraint_def Let_def
    by (auto split: if_splits sum.splits option.splits)
  then show "trimLower X c = ''*''"
    by (cases "trimLower X c") auto
next
  assume "trimLower X c = ''*''"
  then have "normalizeAndValidateDNSDomainConstraint X c = Inl (PanicIndexOutOfRange 1 1)"
    by (simp add: normalizeAndValidateDNSDomainConstraint_def)
  then show "\<exists>err. normalizeAndValidateDNSDomainConstraint X c = Inl err \<and> isPanic err"
    by simp
qed

lemma email_panics_iff:
  "(\<exists>err. normalizeAndValidateEmailConstraint X c = Inl err \<and> isPanic err)
     = (trimLower X c = ''@'')"
proof
  assume "\<exists>err. normalizeAndValidateEmailConstraint X c = Inl err \<and> isPanic err"
  then obtain err where e: "normalizeAndValidateEmailConstraint X c = Inl err"
    and pn: "isPanic err" by blast
  from e pn have "trimLower X c \<noteq> []"
    and "(if trimLower X c ! 0 = CHR ''@'' then drop 1 (trimLower X c) else trimLower X c) = []"
    unfolding normalizeAndValidateEmailConstraint_def Let_def
    by (auto split: if_splits sum.splits option.splits)
  then show "trimLower X c = ''@''"
    by (cases "trimLower X c") (auto split: if_splits)
next
  assume "trimLower X c = ''@''"
  then have "normalizeAndValidateEmailConstraint X c = Inl (PanicIndexOutOfRange 0 0)"
    by (simp add: normalizeAndValidateEmailConstraint_def Count_def)
  then show "\<exists>err. normalizeAndValidateEmailConstraint X c = Inl err \<and> isPanic err"
    by simp
qed

lemma uri_never_panics:
  "normalizeAndValidateURIDomainConstraint X c = Inl err \<Longrightarrow> \<not> isPanic err"
  unfolding normalizeAndValidateURIDomainConstraint_def Let_def
  by (auto split: if_splits sum.splits option.splits)

text \<open>
  C1.  The claim: the three normalizers return a constraint or an error for every input
  and never panic, also on one-character strings such as \<open>"*"\<close> and \<open>"@"\<close>.  The code
  does panic on these two: on \<open>"*"\<close> the DNS normalizer reads byte 1 of a string of
  length 1, and on \<open>"@"\<close> the email normalizer reads byte 0 of the empty string that is
  left once the \<open>@\<close> is cut off.  This holds whatever the collaborators do, since both
  reads come before any of them is called.  The claim holds for every other input: a
  normalizer panics only when the trimmed, lower-cased constraint is \<open>*\<close> (DNS) or \<open>@\<close>
  (email).
\<close>

theorem normalizers_panic_on_single_characters:
  "normalizeAndValidateDNSDomainConstraint X ''*'' = Inl (PanicIndexOutOfRange 1 1)
   \<and> normalizeAndValidateEmailConstraint X ''@'' = Inl (PanicIndexOutOfRange 0 0)
   \<and> (\<exists>err. normalizeAndValidateDNSDomainConstraint X c = Inl err \<and> isPanic err)
       = (trimLower X c = ''*'')
   \<and> (\<exists>err. normalizeAndValidateEmailConstraint X c = Inl err \<and> isPanic err)
       = (trimLower X c = ''@'')
   \<and> (\<nexists>err. normalizeAndValidateURIDomainConstraint X c = Inl err \<and> isPanic err)"
proof (intro conjI)
  show "normalizeAndValidateDNSDomainConstraint X ''*'' = Inl (PanicIndexOutOfRange 1 1)"
    by (simp add: normalizeAndValidateDNSDomainConstraint_def string_evals)
  show "normalizeAndValidateEmailConstraint X ''@'' = Inl (PanicIndexOutOfRange 0 0)"
    by (simp add: normalizeAndValidateEmailConstraint_def string_evals)
  show "(\<exists>err. normalizeAndValidateDNSDomainConstraint X c = Inl err \<and> isPanic err)
       = (trimLower X c = ''*'')"
    by (rule dns_panics_iff)
  show "(\<exists>err. normalizeAndValidateEmailConstraint X c = Inl err \<and> isPanic err)
       = (trimLower X c = ''@'')"
    by (rule email_panics_iff)
  show "\<nexists>err. normalizeAndValidateURIDomainConstraint X c = Inl err \<and> isPanic err"
    using uri_never_panics by blast
qed

theorem normalizers_panic_on_single_characters_witness:
  "normalizeAndValidateDNSDomainConstraint standIns ''*'' = Inl (PanicIndexOutOfRange 1 1)
   \<and> normalizeAndValidateEmailConstraint standIns ''@'' = Inl (PanicIndexOutOfRange 0 0)
   \<and> trimLower standIns '' * '' = ''*''
   \<and> (\<exists>err. normalizeAndValidateDNSDomainConstraint standIns '' * '' = Inl err \<and> isPanic err)"
proof -
  have t: "trimLower standIns '' * '' = ''*''" by code_simp
  with normalizers_panic_on_single_characters [of standIns "'' * ''"] show ?thesis by blast
qed

section \<open>The local part of an email constraint\<close>

text \<open>
  C2.  The claim: the local part of a full-mailbox constraint comes out of normalization
  byte for byte as the administrator wrote it.  The code lower-cases the whole constraint
  before it looks for the \<open>@\<close>, so \<open>Alice@example.com\<close> is stored as
  \<open>alice@example.com\<close>: whatever the collaborators are, the two spellings succeed
  with the same results, and with the stand-ins the result is the lower-case mailbox.
\<close>

theorem email_local_part_is_lower_cased:
  "(normalizeAndValidateEmailConstraint X ''Alice@example.com'' = Inr t)
     = (normalizeAndValidateEmailConstraint X ''alice@example.com'' = Inr t)
   \<and> normalizeAndValidateEmailConstraint standIns ''Alice@example.com''
       = Inr ''alice@example.com''"
proof
  show "(normalizeAndValidateEmailConstraint X ''Alice@example.com'' = Inr t)
     = (normalizeAndValidateEmailConstraint X ''alice@example.com'' = Inr t)"
    by (simp add: normalizeAndValidateEmailConstraint_def string_evals
          split: option.splits sum.splits)
  show "normalizeAndValidateEmailConstraint standIns ''Alice@example.com''
       = Inr ''alice@example.com''"
    by code_simp
qed

theorem email_local_part_is_lower_cased_witness:
  "normalizeAndValidateEmailConstraint standIns ''alice@example.com'' = Inr ''alice@example.com''
   \<and> normalizeAndValidateEmailConstraint standIns ''Alice@example.com''
       = Inr ''alice@example.com''"
  using email_local_part_is_lower_cased [of standIns "''alice@example.com''"] by auto

section \<open>A failing multi-value option\<close>

text \<open>
  When the loop of a multi-value option fails, it fails with what the loop body gave for
  one of the elements.
\<close>

lemma forRange_fails_with:
  assumes "list_ex (\<lambda>x. isl (f x)) xs"
  shows "\<exists>err. forRange f xs = Inl err \<and> (\<exists>x \<in> set xs. f x = Inl err)"
proof -
  from forRange_fails [OF assms] obtain err where err: "forRange f xs = Inl err" ..
  from forRange_Inl [OF err] err show ?thesis by blast
qed

lemma dnsDomain_panics:
  "dnsDomain X d = Inl err \<Longrightarrow> isPanic err \<Longrightarrow> trimLower X d = ''*''"
proof -
  assume d: "dnsDomain X d = Inl err" and p: "isPanic err"
  from d p have "normalizeAndValidateDNSDomainConstraint X d = Inl err"
    by (auto simp: dnsDomain_def split: sum.splits if_splits)
  with p have "\<exists>err. normalizeAndValidateDNSDomainConstraint X d = Inl err \<and> isPanic err"
    by blast
  then show ?thesis unfolding dns_panics_iff .
qed

lemma dns_loop_failure:
  assumes "list_ex (\<lambda>d. isl (normalizeAndValidateDNSDomainConstraint X d)) domains"
  shows "\<exists>err. forRange (dnsDomain X) domains = Inl err
           \<and> (isPanic err \<longrightarrow> list_ex (\<lambda>d. trimLower X d = ''*'') domains)"
proof -
  from assms have "list_ex (\<lambda>d. isl (dnsDomain X d)) domains" by (simp add: isl_dnsDomain)
  from forRange_fails_with [OF this] obtain err d
    where err: "forRange (dnsDomain X) domains = Inl err"
      and d: "d \<in> set domains" "dnsDomain X d = Inl err"
    by blast
  from dnsDomain_panics [OF d(2)] d(1)
  have "isPanic err \<longrightarrow> list_ex (\<lambda>d. trimLower X d = ''*'') domains"
    by (auto simp: list_ex_iff)
  with err show ?thesis by blast
qed

lemma email_loop_failure:
  assumes "list_ex (\<lambda>a. isl (normalizeAndValidateEmailConstraint X a)) emailAddresses"
  shows "\<exists>err. forRange (normalizeAndValidateEmailConstraint X) emailAddresses = Inl err
           \<and> (isPanic err \<longrightarrow> list_ex (\<lambda>a. trimLower X a = ''@'') emailAddresses)"
proof -
  from forRange_fails_with [OF assms] obtain err a
    where err: "forRange (normalizeAndValidateEmailConstraint X) emailAddresses = Inl err"
      and a: "a \<in> set emailAddresses" "normalizeAndValidateEmailConstraint X a = Inl err"
    by blast
  have "trimLower X a = ''@''" if "isPanic err"
  proof -
    from a(2) that
    have "\<exists>err. normalizeAndValidateEmailConstraint X a = Inl err \<and> isPanic err" by blast
    then show ?thesis unfolding email_panics_iff .
  qed
  with a(1) have "isPanic err \<longrightarrow> list_ex (\<lambda>a. trimLower X a = ''@'') emailAddresses"
    by (auto simp: list_ex_iff)
  with err show ?thesis by blast
qed

lemma uri_loop_failure:
  assumes "list_ex (\<lambda>u. isl (normalizeAndValidateURIDomainConstraint X u)) uriDomains"
  shows "\<exists>err. forRange (normalizeAndValidateURIDomainConstraint X) uriDomains = Inl err
           \<and> \<not> isPanic err"
proof -
  from forRange_fails_with [OF assms] obtain err u
    where err: "forRange (normalizeAndValidateURIDomainConstraint X) uriDomains = Inl err"
      and u: "normalizeAndValidateURIDomainConstraint X u = Inl err"
    by blast
  from uri_never_panics [OF u] err show ?thesis by blast
qed

lemma cidr_loop_failure:
  assumes "list_ex (\<lambda>c. net_ParseCIDR X c = None) cidrs"
  shows "\<exists>err. forRange (parseCIDR X format) cidrs = Inl err \<and> \<not> isPanic err"
proof -
  from assms have "list_ex (\<lambda>c. isl (parseCIDR X format c)) cidrs"
    by (simp add: isl_parseCIDR)
  from forRange_fails_with [OF this] obtain err c
    where err: "forRange (parseCIDR X format) cidrs = Inl err"
      and c: "parseCIDR X format c = Inl err"
    by blast
  from c have "\<not> isPanic err" by (auto simp: parseCIDR_def split: option.splits)
  with err show ?thesis by blast
qed

lemma ipOrCIDR_loop_failure:
  assumes "list_ex (\<lambda>s. net_ParseCIDR X s = None \<and> net_ParseIP X s = None) ipsOrCIDRs"
  shows "\<exists>err. forRange (parseIPOrCIDR X format) ipsOrCIDRs = Inl err \<and> \<not> isPanic err"
proof -
  from assms have "list_ex (\<lambda>s. isl (parseIPOrCIDR X format s)) ipsOrCIDRs"
    by (simp add: isl_parseIPOrCIDR)
  from forRange_fails_with [OF this] obtain err s
    where err: "forRange (parseIPOrCIDR X format) ipsOrCIDRs = Inl err"
      and s: "parseIPOrCIDR X format s = Inl err"
    by blast
  from s have "\<not> isPanic err" by (auto simp: parseIPOrCIDR_def split: option.splits)
  with err show ?thesis by blast
qed

lemma dns_options_atomic:
  assumes "list_ex (\<lambda>d. isl (normalizeAndValidateDNSDomainConstraint X d)) domains"
  shows "\<exists>err. WithPermittedDNSDomains X domains e = (e, Some err)
           \<and> (isPanic err \<longrightarrow> list_ex (\<lambda>d. trimLower X d = ''*'') domains)"
    and "\<exists>err. AddPermittedDNSDomains X domains e = (e, Some err)
           \<and> (isPanic err \<longrightarrow> list_ex (\<lambda>d. trimLower X d = ''*'') domains)"
    and "\<exists>err. WithExcludedDNSDomains X domains e = (e, Some err)
           \<and> (isPanic err \<longrightarrow> list_ex (\<lambda>d. trimLower X d = ''*'') domains)"
    and "\<exists>err. AddExcludedDNSDomains X domains e = (e, Some err)
           \<and> (isPanic err \<longrightarrow> list_ex (\<lambda>d. trimLower X d = ''*'') domains)"
  using dns_loop_failure [OF assms]
  by (auto simp: WithPermittedDNSDomains_def AddPermittedDNSDomains_def
        WithExcludedDNSDomains_def AddExcludedDNSDomains_def)

lemma cidr_options_atomic:
  assumes "list_ex (\<lambda>c. net_ParseCIDR X c = None) cidrs"
  shows "\<exists>err. WithPermittedCIDRs X cidrs m e = ((e, m), Some err) \<and> \<not> isPanic err"
    and "\<exists>err. AddPermittedCIDRs X cidrs m e = ((e, m), Some err) \<and> \<not> isPanic err"
    and "\<exists>err. WithExcludedCIDRs X cidrs m e = ((e, m), Some err) \<and> \<not> isPanic err"
    and "\<exists>err. AddExcludedCIDRs X cidrs m e = ((e, m), Some err) \<and> \<not> isPanic err"
  using cidr_loop_failure [OF assms, of "''cannot parse permitted CIDR constraint %q''"]
    cidr_loop_failure [OF assms, of "''cannot parse excluded CIDR constraint %q''"]
  by (auto simp: WithPermittedCIDRs_def AddPermittedCIDRs_def
        WithExcludedCIDRs_def AddExcludedCIDRs_def)

lemma ipOrCIDR_options_atomic:
  assumes "list_ex (\<lambda>s. net_ParseCIDR X s = None \<and> net_ParseIP X s = None) ipsOrCIDRs"
  shows "\<exists>err. WithPermittedIPsOrCIDRs X ipsOrCIDRs m e = ((e, m), Some err) \<and> \<not> isPanic err"
    and "\<exists>err. WithExcludedIPsOrCIDRs X ipsOrCIDRs m e = ((e, m), Some err) \<and> \<not> isPanic err"
  using ipOrCIDR_loop_failure [OF assms, of "''cannot parse permitted constraint %q as IP nor CIDR''"]
    ipOrCIDR_loop_failure [OF assms, of "''cannot parse excluded constraint %q as IP nor CIDR''"]
  by (auto simp: WithPermittedIPsOrCIDRs_def WithExcludedIPsOrCIDRs_def)

lemma email_options_atomic:
  assumes "list_ex (\<lambda>a. isl (normalizeAndValidateEmailConstraint X a)) emailAddresses"
  shows "\<exists>err. WithPermittedEmailAddresses X emailAddresses e = (e, Some err)
           \<and> (isPanic err \<longrightarrow> list_ex (\<lambda>a. trimLower X a = ''@'') emailAddresses)"
    and "\<exists>err. AddPermittedEmailAddresses X emailAddresses e = (e, Some err)
           \<and> (isPanic err \<longrightarrow> list_ex (\<lambda>a. trimLower X a = ''@'') emailAddresses)"
    and "\<exists>err. WithExcludedEmailAddresses X emailAddresses e = (e, Some err)
           \<and> (isPanic err \<longrightarrow> list_ex (\<lambda>a. trimLower X a = ''@'') emailAddresses)"
    and "\<exists>err. AddExcludedEmailAddresses X emailAddresses e = (e, Some err)
           \<and> (isPanic err \<longrightarrow> list_ex (\<lambda>a. trimLower X a = ''@'') emailAddresses)"
  using email_loop_failure [OF assms]
  by (auto simp: WithPermittedEmailAddresses_def AddPermittedEmailAddresses_def
        WithExcludedEmailAddresses_def AddExcludedEmailAddresses_def)

lemma uri_options_atomic:
  assumes "list_ex (\<lambda>u. isl (normalizeAndValidateURIDomainConstraint X u)) uriDomains"
  shows "\<exists>err. WithPermittedURIDomains X uriDomains e = (e, Some err) \<and> \<not> isPanic err"
    and "\<exists>err. AddPermittedURIDomains X uriDomains e = (e, Some err) \<and> \<not> isPanic err"
    and "\<exists>err. WithExcludedURIDomains X uriDomains e = (e, Some err) \<and> \<not> isPanic err"
    and "\<exists>err. AddExcludedURIDomains X uriDomains e = (e, Some err) \<and> \<not> isPanic err"
  using uri_loop_failure [OF assms]
  by (auto simp: WithPermittedURIDomains_def AddPermittedURIDomains_def
        WithExcludedURIDomains_def AddExcludedURIDomains_def)

lemma trimLower_star: "trimLower X ''*'' = ''*''"
  by (simp add: trimLower_def string_evals)

lemma trimLower_at: "trimLower X ''@'' = ''@''"
  by (simp add: trimLower_def string_evals)

lemma dns_options_panic:
  "WithPermittedDNSDomains X (''*'' # domains) e = (e, Some (PanicIndexOutOfRange 1 1))"
  "AddPermittedDNSDomains X (''*'' # domains) e = (e, Some (PanicIndexOutOfRange 1 1))"
  "WithExcludedDNSDomains X (''*'' # domains) e = (e, Some (PanicIndexOutOfRange 1 1))"
  "AddExcludedDNSDomains X (''*'' # domains) e = (e, Some (PanicIndexOutOfRange 1 1))"
  by (simp_all add: WithPermittedDNSDomains_def AddPermittedDNSDomains_def
        WithExcludedDNSDomains_def AddExcludedDNSDomains_def dnsDomain_def
        normalizeAndValidateDNSDomainConstraint_def trimLower_star)

lemma email_options_panic:
  "WithPermittedEmailAddresses X (''@'' # emailAddresses) e = (e, Some (PanicIndexOutOfRange 0 0))"
  "AddPermittedEmailAddresses X (''@'' # emailAddresses) e = (e, Some (PanicIndexOutOfRange 0 0))"
  "WithExcludedEmailAddresses X (''@'' # emailAddresses) e = (e, Some (PanicIndexOutOfRange 0 0))"
  "AddExcludedEmailAddresses X (''@'' # emailAddresses) e = (e, Some (PanicIndexOutOfRange 0 0))"
  by (simp_all add: WithPermittedEmailAddresses_def AddPermittedEmailAddresses_def
        WithExcludedEmailAddresses_def AddExcludedEmailAddresses_def
        normalizeAndValidateEmailConstraint_def trimLower_at Count_def)

text \<open>
  C3.  The claim: when normalization of an element of the list fails, a multi-value option
  returns an error and leaves the engine as it was.  Every such option normalizes the whole
  list into a local slice before it assigns a field, so the engine is indeed the one it was
  given, whatever the failure.  But the failure need not be an error: when the first
  element that fails is \<open>"*"\<close> for a DNS option, or \<open>"@"\<close> for an email option, the
  normalizer panics as in C1, nothing recovers, and the option panics with it.  So
  \<open>WithPermittedDNSDomains\<close> on \<open>["*", ...]\<close> and \<open>AddPermittedEmailAddresses\<close> on
  \<open>["@", ...]\<close> return no error, whatever the collaborators do.  A failing option
  panics only if such an element is in the list; the options on CIDRs, IP-or-CIDR strings
  and URI domains never panic and always return an error.
\<close>

theorem multi_value_options_panic_on_single_character_element:
  "WithPermittedDNSDomains X (''*'' # domains') e = (e, Some (PanicIndexOutOfRange 1 1))
   \<and> AddPermittedDNSDomains X (''*'' # domains') e = (e, Some (PanicIndexOutOfRange 1 1))
   \<and> WithExcludedDNSDomains X (''*'' # domains') e = (e, Some (PanicIndexOutOfRange 1 1))
   \<and> AddExcludedDNSDomains X (''*'' # domains') e = (e, Some (PanicIndexOutOfRange 1 1))
   \<and> WithPermittedEmailAddresses X (''@'' # emailAddresses') e
       = (e, Some (PanicIndexOutOfRange 0 0))
   \<and> AddPermittedEmailAddresses X (''@'' # emailAddresses') e
       = (e, Some (PanicIndexOutOfRange 0 0))
   \<and> WithExcludedEmailAddresses X (''@'' # emailAddresses') e
       = (e, Some (PanicIndexOutOfRange 0 0))
   \<and> AddExcludedEmailAddresses X (''@'' # emailAddresses') e
       = (e, Some (PanicIndexOutOfRange 0 0))
   \<and> (list_ex (\<lambda>d. isl (normalizeAndValidateDNSDomainConstraint X d)) domains \<longrightarrow>
      (\<exists>err. WithPermittedDNSDomains X domains e = (e, Some err)
         \<and> (isPanic err \<longrightarrow> list_ex (\<lambda>d. trimLower X d = ''*'') domains))
      \<and> (\<exists>err. AddPermittedDNSDomains X domains e = (e, Some err)
         \<and> (isPanic err \<longrightarrow> list_ex (\<lambda>d. trimLower X d = ''*'') domains))
      \<and> (\<exists>err. WithExcludedDNSDomains X domains e = (e, Some err)
         \<and> (isPanic err \<longrightarrow> list_ex (\<lambda>d. trimLower X d = ''*'') domains))
      \<and> (\<exists>err. AddExcludedDNSDomains X domains e = (e, Some err)
         \<and> (isPanic err \<longrightarrow> list_ex (\<lambda>d. trimLower X d = ''*'') domains)))
   \<and> (list_ex (\<lambda>c. net_ParseCIDR X c = None) cidrs \<longrightarrow>
      (\<exists>err. WithPermittedCIDRs X cidrs m e = ((e, m), Some err) \<and> \<not> isPanic err)
      \<and> (\<exists>err. AddPermittedCIDRs X cidrs m e = ((e, m), Some err) \<and> \<not> isPanic err)
      \<and> (\<exists>err. WithExcludedCIDRs X cidrs m e = ((e, m), Some err) \<and> \<not> isPanic err)
      \<and> (\<exists>err. AddExcludedCIDRs X cidrs m e = ((e, m), Some err) \<and> \<not> isPanic err))
   \<and> (list_ex (\<lambda>s. net_ParseCIDR X s = None \<and> net_ParseIP X s = None) ipsOrCIDRs \<longrightarrow>
      (\<exists>err. WithPermittedIPsOrCIDRs X ipsOrCIDRs m e = ((e, m), Some err) \<and> \<not> isPanic err)
      \<and> (\<exists>err. WithExcludedIPsOrCIDRs X ipsOrCIDRs m e = ((e, m), Some err) \<and> \<not> isPanic err))
   \<and> (list_ex (\<lambda>a. isl (normalizeAndValidateEmailConstraint X a)) emailAddresses \<longrightarrow>
      (\<exists>err. WithPermittedEmailAddresses X emailAddresses e = (e, Some err)
         \<and> (isPanic err \<longrightarrow> list_ex (\<lambda>a. trimLower X a = ''@'') emailAddresses))
      \<and> (\<exists>err. AddPermittedEmailAddresses X emailAddresses e = (e, Some err)
         \<and> (isPanic err \<longrightarrow> list_ex (\<lambda>a. trimLower X a = ''@'') emailAddresses))
      \<and> (\<exists>err. WithExcludedEmailAddresses X emailAddresses e = (e, Some err)
         \<and> (isPanic err \<longrightarrow> list_ex (\<lambda>a. trimLower X a = ''@'') emailAddresses))
      \<and> (\<exists>err. AddExcludedEmailAddresses X emailAddresses e = (e, Some err)
         \<and> (isPanic err \<longrightarrow> list_ex (\<lambda>a. trimLower X a = ''@'') emailAddresses)))
   \<and> (list_ex (\<lambda>u. isl (normalizeAndValidateURIDomainConstraint X u)) uriDomains \<longrightarrow>
      (\<exists>err. WithPermittedURIDomains X uriDomains e = (e, Some err) \<and> \<not> isPanic err)
      \<and> (\<exists>err. AddPermittedURIDomains X uriDomains e = (e, Some err) \<and> \<not> isPanic err)
      \<and> (\<exists>err. WithExcludedURIDomains X uriDomains e = (e, Some err) \<and> \<not> isPanic err)
      \<and> (\<exists>err. AddExcludedURIDomains X uriDomains e = (e, Some err) \<and> \<not> isPanic err))"
  by (intro conjI impI dns_options_panic email_options_panic dns_options_atomic
        cidr_options_atomic ipOrCIDR_options_atomic email_options_atomic uri_options_atomic)

theorem multi_value_options_panic_on_single_character_element_witness:
  "WithPermittedDNSDomains standIns [''*'', ''a..b''] emptyEngine
     = (emptyEngine, Some (PanicIndexOutOfRange 1 1))
   \<and> AddPermittedEmailAddresses standIns [''@'', ''a*b@example.com''] emptyEngine
     = (emptyEngine, Some (PanicIndexOutOfRange 0 0))
   \<and> list_ex (\<lambda>d. isl (normalizeAndValidateDNSDomainConstraint standIns d))
        [''example.com'', ''a..b'']
   \<and> \<not> list_ex (\<lambda>d. trimLower standIns d = ''*'') [''example.com'', ''a..b'']
   \<and> (\<exists>err. AddPermittedDNSDomains standIns [''example.com'', ''a..b'']
               (emptyEngine\<lparr>permittedDNSDomains := [''.local'']\<rparr>)
             = (emptyEngine\<lparr>permittedDNSDomains := [''.local'']\<rparr>, Some err)
           \<and> \<not> isPanic err)
   \<and> list_ex (\<lambda>c. net_ParseCIDR standIns c = None) [''10.0.0.0/8'', ''10.0.0.0/33'']
   \<and> (\<exists>err. WithExcludedCIDRs standIns [''10.0.0.0/8'', ''10.0.0.0/33''] emptyMemory emptyEngine
             = ((emptyEngine, emptyMemory), Some err) \<and> \<not> isPanic err)
   \<and> list_ex (\<lambda>s. net_ParseCIDR standIns s = None \<and> net_ParseIP standIns s = None)
        [''127.0.0.1'', ''localhost'']
   \<and> (\<exists>err. WithPermittedIPsOrCIDRs standIns [''127.0.0.1'', ''localhost''] emptyMemory emptyEngine
             = ((emptyEngine, emptyMemory), Some err) \<and> \<not> isPanic err)
   \<and> list_ex (\<lambda>a. isl (normalizeAndValidateEmailConstraint standIns a))
        [''@example.com'', ''a*b@example.com'']
   \<and> \<not> list_ex (\<lambda>a. trimLower standIns a = ''@'') [''@example.com'', ''a*b@example.com'']
   \<and> (\<exists>err. WithPermittedEmailAddresses standIns [''@example.com'', ''a*b@example.com'']
               emptyEngine = (emptyEngine, Some err) \<and> \<not> isPanic err)
   \<and> list_ex (\<lambda>u. isl (normalizeAndValidateURIDomainConstraint standIns u))
        [''example.com'', ''example.com:443'']
   \<and> (\<exists>err. AddExcludedURIDomains standIns [''example.com'', ''example.com:443'']
               emptyEngine = (emptyEngine, Some err) \<and> \<not> isPanic err)"
proof -
  have h1: "list_ex (\<lambda>d. isl (normalizeAndValidateDNSDomainConstraint standIns d))
              [''example.com'', ''a..b'']"
    by code_simp
  have n1: "\<not> list_ex (\<lambda>d. trimLower standIns d = ''*'') [''example.com'', ''a..b'']"
    by code_simp
  have h2: "list_ex (\<lambda>c. net_ParseCIDR standIns c = None) [''10.0.0.0/8'', ''10.0.0.0/33'']"
    by code_simp
  have h3: "list_ex (\<lambda>s. net_ParseCIDR standIns s = None \<and> net_ParseIP standIns s = None)
              [''127.0.0.1'', ''localhost'']"
    by code_simp
  have h4: "list_ex (\<lambda>a. isl (normalizeAndValidateEmailConstraint standIns a))
              [''@example.com'', ''a*b@example.com'']"
    by code_simp
  have n4: "\<not> list_ex (\<lambda>a. trimLower standIns a = ''@'') [''@example.com'', ''a*b@example.com'']"
    by code_simp
  have h5: "list_ex (\<lambda>u. isl (normalizeAndValidateURIDomainConstraint standIns u))
              [''example.com'', ''example.com:443'']"
    by code_simp
  note t = multi_value_options_panic_on_single_character_element [where X = standIns]
  from t [where domains' = "[''a..b'']" and e = emptyEngine]
  have p1: "WithPermittedDNSDomains standIns [''*'', ''a..b''] emptyEngine
     = (emptyEngine, Some (PanicIndexOutOfRange 1 1))"
    by blast
  from t [where emailAddresses' = "[''a*b@example.com'']" and e = emptyEngine]
  have p2: "AddPermittedEmailAddresses standIns [''@'', ''a*b@example.com''] emptyEngine
     = (emptyEngine, Some (PanicIndexOutOfRange 0 0))"
    by blast
  from h1 n1 t [where domains = "[''example.com'', ''a..b'']"
      and e = "emptyEngine\<lparr>permittedDNSDomains := [''.local'']\<rparr>"]
  have c1: "\<exists>err. AddPermittedDNSDomains standIns [''example.com'', ''a..b'']
               (emptyEngine\<lparr>permittedDNSDomains := [''.local'']\<rparr>)
             = (emptyEngine\<lparr>permittedDNSDomains := [''.local'']\<rparr>, Some err)
           \<and> \<not> isPanic err"
    by blast
  from h2 t [where cidrs = "[''10.0.0.0/8'', ''10.0.0.0/33'']" and e = emptyEngine
      and m = emptyMemory]
  have c2: "\<exists>err. WithExcludedCIDRs standIns [''10.0.0.0/8'', ''10.0.0.0/33''] emptyMemory emptyEngine
             = ((emptyEngine, emptyMemory), Some err) \<and> \<not> isPanic err"
    by blast
  from h3 t [where ipsOrCIDRs = "[''127.0.0.1'', ''localhost'']" and e = emptyEngine
      and m = emptyMemory]
  have c3: "\<exists>err. WithPermittedIPsOrCIDRs standIns [''127.0.0.1'', ''localhost''] emptyMemory emptyEngine
             = ((emptyEngine, emptyMemory), Some err) \<and> \<not> isPanic err"
    by blast
  from h4 n4 t [where emailAddresses = "[''@example.com'', ''a*b@example.com'']"
      and e = emptyEngine]
  have c4: "\<exists>err. WithPermittedEmailAddresses standIns [''@example.com'', ''a*b@example.com'']
               emptyEngine = (emptyEngine, Some err) \<and> \<not> isPanic err"
    by blast
  from h5 t [where uriDomains = "[''example.com'', ''example.com:443'']" and e = emptyEngine]
  have c5: "\<exists>err. AddExcludedURIDomains standIns [''example.com'', ''example.com:443'']
               emptyEngine = (emptyEngine, Some err) \<and> \<not> isPanic err"
    by blast
  from p1 p2 h1 n1 h2 h3 h4 n4 h5 c1 c2 c3 c4 c5 show ?thesis by blast
qed

section \<open>Wildcards in DNS domain constraints\<close>

lemma dns_error_cases:
  assumes "trimLower X c = n" and "n \<noteq> []"
  shows "Contains n ''..'' \<Longrightarrow>
      normalizeAndValidateDNSDomainConstraint X c
        = Inl (Errorf ''domain constraint %q cannot have empty labels'' [c])"
    and "\<not> Contains n ''..'' \<Longrightarrow> n ! 0 = CHR ''*'' \<Longrightarrow> \<not> length n \<le> 1 \<Longrightarrow>
      n ! 1 \<noteq> CHR ''.'' \<Longrightarrow>
      normalizeAndValidateDNSDomainConstraint X c
        = Inl (Errorf ''wildcard character in domain constraint %q can only be used to match (full) labels'' [c])"
    and "\<not> Contains n ''..'' \<Longrightarrow> \<not> (n ! 0 = CHR ''*'' \<and> length n \<le> 1) \<Longrightarrow>
      \<not> (n ! 0 = CHR ''*'' \<and> n ! 1 \<noteq> CHR ''.'') \<Longrightarrow> 0 < LastIndex n ''*'' \<Longrightarrow>
      normalizeAndValidateDNSDomainConstraint X c
        = Inl (Errorf ''domain constraint %q can only have wildcard as starting character'' [c])"
  unfolding normalizeAndValidateDNSDomainConstraint_def Let_def assms(1)
  using assms(2) by simp_all

lemma dns_rejects_misplaced_wildcard:
  assumes n: "n = trimLower X c"
    and i: "i < length n" and star: "n ! i = CHR ''*''"
    and misplaced: "\<not> (i = 0 \<and> prefix ''*.'' n)"
    and not_lone: "n \<noteq> ''*''"
  shows "\<exists>fmt. normalizeAndValidateDNSDomainConstraint X c = Inl (Errorf fmt [c])"
proof -
  from i have ne: "n \<noteq> []" by auto
  note cases = dns_error_cases [OF n [symmetric] ne]
  have later: "0 < LastIndex n ''*''" if "0 < i"
  proof -
    from that obtain j where j: "i = Suc j" by (cases i) auto
    with i have "j < length (tl n)" by simp
    moreover from this j star have "tl n ! j = CHR ''*''" by (simp add: nth_tl)
    ultimately have "CHR ''*'' \<in> set (tl n)" by (metis nth_mem)
    then show ?thesis by (simp only: LastIndex_byte_pos)
  qed
  show ?thesis
  proof (cases "Contains n ''..''")
    case True
    from cases(1) [OF True] show ?thesis by blast
  next
    case dots: False
    show ?thesis
    proof (cases "n ! 0 = CHR ''*''")
      case False
      with star have "0 < i" by (cases i) auto
      from cases(3) [OF dots _ _ later [OF this]] False show ?thesis by blast
    next
      case True
      have long: "\<not> length n \<le> 1"
      proof
        assume "length n \<le> 1"
        with ne True have "n = ''*''" by (cases n) auto
        with not_lone show False by contradiction
      qed
      show ?thesis
      proof (cases "n ! 1 = CHR ''.''")
        case False
        from cases(2) [OF dots True long False] show ?thesis by blast
      next
        case dot: True
        from long obtain x y ys where "n = x # y # ys"
          by (cases n; cases "tl n") auto
        with True dot have "prefix ''*.'' n" by simp
        with misplaced have "0 < i" by simp
        from cases(3) [OF dots _ _ later [OF this]] long dot show ?thesis by blast
      qed
    qed
  qed
qed

lemma dns_wildcard_result:
  assumes p: "prefix ''*.'' (trimLower X c)"
    and ok: "normalizeAndValidateDNSDomainConstraint X c = Inr t"
  shows "idna_ToASCII X (drop 1 (trimLower X c)) = Inr t"
    and "prefix ''.'' (drop 1 (trimLower X c))"
proof -
  from p obtain r where r: "trimLower X c = ''*.'' @ r" by (auto simp: prefix_def)
  from ok show "idna_ToASCII X (drop 1 (trimLower X c)) = Inr t"
    unfolding normalizeAndValidateDNSDomainConstraint_def r
    by (simp add: Let_def HasPrefix_def split: if_splits sum.splits option.splits)
  from r show "prefix ''.'' (drop 1 (trimLower X c))" by simp
qed

text \<open>
  C4.  The claim: a \<open>*\<close> anywhere other than as the very first character immediately
  followed by \<open>.\<close> causes an error, and for an input that begins with \<open>*.\<close> the result
  drops the \<open>*\<close> and keeps the \<open>.\<close>.  The input is read trimmed and lower-cased, as the
  normalizer's first line makes it; let \<open>n\<close> be that string.  The claim fails for
  \<open>n = "*"\<close>, a \<open>*\<close> that no \<open>.\<close> follows: the normalizer reads byte 1 of a string of
  length 1 and panics, as in C1, where the claim has it return an error.  For every other
  \<open>n\<close> with a misplaced \<open>*\<close> the normalizer returns an error that carries the raw
  constraint.  When \<open>n\<close> begins with \<open>*.\<close> and the constraint is accepted, the result is
  what the IDNA conversion returns for \<open>n\<close> without its first character, a string
  that begins with \<open>.\<close>.
\<close>

theorem dns_wildcard_rule_panics_on_lone_wildcard:
  "normalizeAndValidateDNSDomainConstraint X ''*'' = Inl (PanicIndexOutOfRange 1 1)
   \<and> (''*''::string) ! 0 = CHR ''*'' \<and> \<not> prefix ''*.'' ''*''
   \<and> (\<forall>fmt args. normalizeAndValidateDNSDomainConstraint X ''*'' \<noteq> Inl (Errorf fmt args))
   \<and> (n = trimLower X c \<and> i < length n \<and> n ! i = CHR ''*''
        \<and> \<not> (i = 0 \<and> prefix ''*.'' n) \<longrightarrow>
      (if n = ''*''
       then normalizeAndValidateDNSDomainConstraint X c = Inl (PanicIndexOutOfRange 1 1)
       else \<exists>fmt. normalizeAndValidateDNSDomainConstraint X c = Inl (Errorf fmt [c])))
   \<and> (prefix ''*.'' (trimLower X c) \<and> normalizeAndValidateDNSDomainConstraint X c = Inr t \<longrightarrow>
      idna_ToASCII X (drop 1 (trimLower X c)) = Inr t \<and> prefix ''.'' (drop 1 (trimLower X c)))"
proof (intro conjI impI allI)
  have lone: "normalizeAndValidateDNSDomainConstraint X c' = Inl (PanicIndexOutOfRange 1 1)"
    if "trimLower X c' = ''*''" for c'
    using that by (simp add: normalizeAndValidateDNSDomainConstraint_def)
  have star: "trimLower X ''*'' = ''*''" by (simp add: trimLower_def string_evals)
  from lone [OF star]
  show p: "normalizeAndValidateDNSDomainConstraint X ''*'' = Inl (PanicIndexOutOfRange 1 1)" .
  show "(''*''::string) ! 0 = CHR ''*''" by simp
  show "\<not> prefix ''*.'' ''*''" by simp
  show "normalizeAndValidateDNSDomainConstraint X ''*'' \<noteq> Inl (Errorf fmt args)" for fmt args
    unfolding p by simp
  show "if n = ''*''
       then normalizeAndValidateDNSDomainConstraint X c = Inl (PanicIndexOutOfRange 1 1)
       else \<exists>fmt. normalizeAndValidateDNSDomainConstraint X c = Inl (Errorf fmt [c])"
    if a: "n = trimLower X c \<and> i < length n \<and> n ! i = CHR ''*''
        \<and> \<not> (i = 0 \<and> prefix ''*.'' n)"
  proof (cases "n = ''*''")
    case True
    with a have "trimLower X c = ''*''" by simp
    from lone [OF this] True show ?thesis by simp
  next
    case False
    with a have "\<exists>fmt. normalizeAndValidateDNSDomainConstraint X c = Inl (Errorf fmt [c])"
      using dns_rejects_misplaced_wildcard by blast
    with False show ?thesis by simp
  qed
next
  assume a: "prefix ''*.'' (trimLower X c) \<and> normalizeAndValidateDNSDomainConstraint X c = Inr t"
  then show "idna_ToASCII X (drop 1 (trimLower X c)) = Inr t"
    using dns_wildcard_result(1) by blast
  from a show "prefix ''.'' (drop 1 (trimLower X c))"
    using dns_wildcard_result(2) by blast
qed

theorem dns_wildcard_rule_panics_on_lone_wildcard_witness:
  "''*'' = trimLower standIns '' * ''
   \<and> normalizeAndValidateDNSDomainConstraint standIns '' * '' = Inl (PanicIndexOutOfRange 1 1)
   \<and> ''a*.example.com'' = trimLower standIns '' A*.Example.com''
   \<and> ''a*.example.com'' ! 1 = CHR ''*''
   \<and> normalizeAndValidateDNSDomainConstraint standIns '' A*.Example.com''
       = Inl (Errorf ''domain constraint %q can only have wildcard as starting character''
                ['' A*.Example.com''])
   \<and> prefix ''*.'' (trimLower standIns ''*.Example.com'')
   \<and> normalizeAndValidateDNSDomainConstraint standIns ''*.Example.com'' = Inr ''.example.com''
   \<and> idna_ToASCII standIns (drop 1 (trimLower standIns ''*.Example.com'')) = Inr ''.example.com''
   \<and> prefix ''.'' (drop 1 (trimLower standIns ''*.Example.com''))"
proof -
  have n: "''a*.example.com'' = trimLower standIns '' A*.Example.com''" by code_simp
  have s: "''a*.example.com'' ! 1 = CHR ''*''" by simp
  have l: "''*'' = trimLower standIns '' * ''" by code_simp
  have q: "prefix ''*.'' (trimLower standIns ''*.Example.com'')" by code_simp
  have r: "normalizeAndValidateDNSDomainConstraint standIns ''*.Example.com'' = Inr ''.example.com''"
    by code_simp
  note t = dns_wildcard_rule_panics_on_lone_wildcard [where X = standIns]
  have l2: "(0::nat) < length ''*''" by simp
  have l3: "(''*''::string) ! 0 = CHR ''*''" by simp
  have l4: "\<not> ((0::nat) = 0 \<and> prefix ''*.'' ''*'')" by simp
  from t [where c = "'' * ''" and n = "''*''" and i = 0] l l2 l3 l4
  have lone: "normalizeAndValidateDNSDomainConstraint standIns '' * ''
       = Inl (PanicIndexOutOfRange 1 1)"
    by (simp only: if_True simp_thms)
  have h2: "(1::nat) < length ''a*.example.com''" by simp
  have h4: "\<not> ((1::nat) = 0 \<and> prefix ''*.'' ''a*.example.com'')" by simp
  have h5: "''a*.example.com'' \<noteq> ''*''" by simp
  from t [where c = "'' A*.Example.com''" and n = "''a*.example.com''" and i = 1] n h2 s h4 h5
  have "\<exists>fmt. normalizeAndValidateDNSDomainConstraint standIns '' A*.Example.com''
       = Inl (Errorf fmt ['' A*.Example.com''])"
    by (simp only: if_False simp_thms)
  moreover have "normalizeAndValidateDNSDomainConstraint standIns '' A*.Example.com''
       = Inl (Errorf ''domain constraint %q can only have wildcard as starting character''
                ['' A*.Example.com''])"
    by code_simp
  moreover from t [where c = "''*.Example.com''" and t = "''.example.com''"] q r
  have "idna_ToASCII standIns (drop 1 (trimLower standIns ''*.Example.com'')) = Inr ''.example.com''"
    by blast
  moreover from t [where c = "''*.Example.com''" and t = "''.example.com''"] q r
  have "prefix ''.'' (drop 1 (trimLower standIns ''*.Example.com''))" by blast
  ultimately show ?thesis using n s l lone q r by blast
qed

section \<open>Normalizing a normalized DNS domain constraint\<close>

lemma dns_rejects_empty:
  "normalizeAndValidateDNSDomainConstraint X []
     = Inl (Errorf ''contraint %q can not be empty or white space string'' [[]])"
  by (simp add: normalizeAndValidateDNSDomainConstraint_def trimLower_def string_evals)

lemma TrimSpace_softHyphen: "TrimSpace softHyphen = softHyphen"
  by code_simp

lemma trimLower_softHyphen:
  "unicode_ToLower X softHyphen = softHyphen \<Longrightarrow> trimLower X softHyphen = softHyphen"
  by (simp add: trimLower_def TrimSpace_softHyphen ToLower_def)
    (simp add: softHyphen_def string_evals)

lemma dns_accepts_softHyphen:
  assumes "unicode_ToLower X softHyphen = softHyphen"
    and "idna_ToASCII X softHyphen = Inr []"
    and "domainToReverseLabels X [] = Some reverseLabels"
  shows "normalizeAndValidateDNSDomainConstraint X softHyphen = Inr []"
proof -
  have "softHyphen \<noteq> []" "\<not> Contains softHyphen ''..''" "softHyphen ! 0 \<noteq> CHR ''*''"
    "\<not> 0 < LastIndex softHyphen ''*''" "\<not> HasPrefix softHyphen ''*.''"
    by code_simp+
  with assms(2,3) show ?thesis
    unfolding normalizeAndValidateDNSDomainConstraint_def Let_def
      trimLower_softHyphen [OF assms(1)]
    by simp
qed

text \<open>
  C5.  The claim: when the DNS normalizer accepts a constraint with result \<open>t\<close>, it accepts
  \<open>t\<close> and returns \<open>t\<close>.  The normalizer rejects the empty string, but only on entry
  (line 596): what the IDNA conversion returns is not looked at again.  The conversion
  removes the code points that UTS 46 maps to nothing, among them the soft hyphen U+00AD
  (bytes \<open>0xC2 0xAD\<close>), which is neither white space nor changed by lower-casing.  So the
  constraint that is a soft hyphen alone is accepted with the empty string as its result,
  provided the label parser accepts the empty string, and the empty string is then
  rejected.  The three facts about the collaborators are hypotheses here; whenever any
  constraint is accepted with the empty result, the second normalization fails.
\<close>

theorem dns_normalization_accepts_soft_hyphen_as_empty:
  "normalizeAndValidateDNSDomainConstraint X []
     = Inl (Errorf ''contraint %q can not be empty or white space string'' [[]])
   \<and> (normalizeAndValidateDNSDomainConstraint X c = Inr [] \<longrightarrow>
        normalizeAndValidateDNSDomainConstraint X [] \<noteq> Inr [])
   \<and> (unicode_ToLower X softHyphen = softHyphen \<and> idna_ToASCII X softHyphen = Inr []
        \<and> domainToReverseLabels X [] = Some reverseLabels \<longrightarrow>
      normalizeAndValidateDNSDomainConstraint X softHyphen = Inr [])"
proof (intro conjI impI)
  show "normalizeAndValidateDNSDomainConstraint X []
     = Inl (Errorf ''contraint %q can not be empty or white space string'' [[]])"
    by (rule dns_rejects_empty)
  show "normalizeAndValidateDNSDomainConstraint X [] \<noteq> Inr []"
    unfolding dns_rejects_empty by simp
  assume "unicode_ToLower X softHyphen = softHyphen \<and> idna_ToASCII X softHyphen = Inr []
        \<and> domainToReverseLabels X [] = Some reverseLabels"
  then show "normalizeAndValidateDNSDomainConstraint X softHyphen = Inr []"
    using dns_accepts_softHyphen by blast
qed

theorem dns_normalization_accepts_soft_hyphen_as_empty_witness:
  "unicode_ToLower softHyphenCollaborators softHyphen = softHyphen
   \<and> idna_ToASCII softHyphenCollaborators softHyphen = Inr []
   \<and> domainToReverseLabels softHyphenCollaborators [] = Some []
   \<and> normalizeAndValidateDNSDomainConstraint softHyphenCollaborators softHyphen = Inr []
   \<and> normalizeAndValidateDNSDomainConstraint softHyphenCollaborators []
       = Inl (Errorf ''contraint %q can not be empty or white space string'' [[]])
   \<and> normalizeAndValidateDNSDomainConstraint softHyphenCollaborators [] \<noteq> Inr []"
proof -
  have h1: "unicode_ToLower softHyphenCollaborators softHyphen = softHyphen" by code_simp
  have h2: "idna_ToASCII softHyphenCollaborators softHyphen = Inr []" by code_simp
  have h3: "domainToReverseLabels softHyphenCollaborators [] = Some []" by code_simp
  note t = dns_normalization_accepts_soft_hyphen_as_empty
    [where X = softHyphenCollaborators and reverseLabels = "[]" and c = softHyphen]
  from t h1 h2 h3
  have a: "normalizeAndValidateDNSDomainConstraint softHyphenCollaborators softHyphen = Inr []"
    by blast
  from t have b: "normalizeAndValidateDNSDomainConstraint softHyphenCollaborators []
       = Inl (Errorf ''contraint %q can not be empty or white space string'' [[]])"
    by blast
  from t a have c: "normalizeAndValidateDNSDomainConstraint softHyphenCollaborators [] \<noteq> Inr []"
    by blast
  from h1 h2 h3 a b c show ?thesis by blast
qed

section \<open>Facts about slices\<close>

lemma length_elems: "length (elems m s) = sliceLen s"
  by (simp add: elems_def)

lemma nth_elems: "i < sliceLen s \<Longrightarrow> elems m s ! i = cells m (sliceArray s) (sliceFirst s + i)"
  by (simp add: elems_def)


lemma elems_newSlice: "elems (fst (newSlice m xs c)) (snd (newSlice m xs c)) = xs"
  by (intro nth_equalityI) (simp_all add: length_elems nth_elems newSlice_def)


lemma elems_write_own:
  "elems (writeCells m (sliceArray s) (sliceFirst s + sliceLen s) xs)
         (s\<lparr>sliceLen := sliceLen s + length xs\<rparr>)
     = elems m s @ xs"
proof (intro nth_equalityI)
  show "length (elems (writeCells m (sliceArray s) (sliceFirst s + sliceLen s) xs)
         (s\<lparr>sliceLen := sliceLen s + length xs\<rparr>)) = length (elems m s @ xs)"
    by (simp add: length_elems)
next
  fix i
  assume "i < length (elems (writeCells m (sliceArray s) (sliceFirst s + sliceLen s) xs)
         (s\<lparr>sliceLen := sliceLen s + length xs\<rparr>))"
  then have i: "i < sliceLen s + length xs" by (simp add: length_elems)
  show "elems (writeCells m (sliceArray s) (sliceFirst s + sliceLen s) xs)
         (s\<lparr>sliceLen := sliceLen s + length xs\<rparr>) ! i = (elems m s @ xs) ! i"
  proof (cases "i < sliceLen s")
    case True
    then show ?thesis
      using i by (simp add: nth_elems nth_append length_elems writeCells_def)
  next
    case False
    then show ?thesis
      using i by (simp add: nth_elems nth_append length_elems writeCells_def)
  qed
qed


lemma elems_appendSlice:
  "elems (fst (appendSlice g m s xs)) (snd (appendSlice g m s xs)) = elems m s @ xs"
  by (simp add: appendSlice_def elems_write_own elems_newSlice)


text \<open>The fields of the engine that \<open>newSlice\<close> and \<open>appendSlice\<close> return a slice for.\<close>

lemma newSlice_pair: "newSlice m xs c = (fst (newSlice m xs c), snd (newSlice m xs c))"
  by simp

lemma appendSlice_pair:
  "appendSlice g m s xs = (fst (appendSlice g m s xs), snd (appendSlice g m s xs))"
  by simp

section \<open>The options on IP ranges and the memory\<close>





















lemma frame_WithPermittedIP:
  "fst (fst (WithPermittedIP ip m e)) = e\<lparr>permittedIPRanges := permittedIPRanges (fst (fst (WithPermittedIP ip m e)))\<rparr>"
  by (simp add: WithPermittedIP_def Let_def split_beta split: sum.splits)


lemma frame_AddPermittedIP:
  "fst (fst (AddPermittedIP X ip m e)) = e\<lparr>permittedIPRanges := permittedIPRanges (fst (fst (AddPermittedIP X ip m e)))\<rparr>"
  by (simp add: AddPermittedIP_def Let_def split_beta split: sum.splits)










lemma frame_WithExcludedIP:
  "fst (fst (WithExcludedIP ip m e)) = e\<lparr>excludedIPRanges := excludedIPRanges (fst (fst (WithExcludedIP ip m e)))\<rparr>"
  by (simp add: WithExcludedIP_def Let_def split_beta split: sum.splits)


lemma frame_AddExcludedIP:
  "fst (fst (AddExcludedIP X ip m e)) = e\<lparr>excludedIPRanges := excludedIPRanges (fst (fst (AddExcludedIP X ip m e)))\<rparr>"
  by (simp add: AddExcludedIP_def Let_def split_beta split: sum.splits)


section \<open>IP addresses become host-only networks\<close>

lemma CIDRMask_32: "CIDRMask 32 32 = [0xff, 0xff, 0xff, 0xff]"
  by (simp add: CIDRMask_def numeral_nat)

lemma CIDRMask_128: "CIDRMask 128 128 = replicate 16 0xff"
  by (simp add: CIDRMask_def numeral_nat)

lemma networkFor_eq:
  "networkFor ip =
     \<lparr>IP = ip, Mask = (if isIPv4 ip then [0xff, 0xff, 0xff, 0xff] else replicate 16 0xff)\<rparr>"
  by (simp add: networkFor_def CIDRMask_32 CIDRMask_128)

lemma ip_options_store_host_network:
  "permittedNetworks (fst (WithPermittedIP ip m e)) =
     [Some \<lparr>IP = ip, Mask = (if isIPv4 ip then [0xff, 0xff, 0xff, 0xff] else replicate 16 0xff)\<rparr>]"
  "permittedNetworks (fst (AddPermittedIP X ip m e)) = permittedNetworks (e, m) @
     [Some \<lparr>IP = ip, Mask = (if isIPv4 ip then [0xff, 0xff, 0xff, 0xff] else replicate 16 0xff)\<rparr>]"
  "excludedNetworks (fst (WithExcludedIP ip m e)) =
     [Some \<lparr>IP = ip, Mask = (if isIPv4 ip then [0xff, 0xff, 0xff, 0xff] else replicate 16 0xff)\<rparr>]"
  "excludedNetworks (fst (AddExcludedIP X ip m e)) = excludedNetworks (e, m) @
     [Some \<lparr>IP = ip, Mask = (if isIPv4 ip then [0xff, 0xff, 0xff, 0xff] else replicate 16 0xff)\<rparr>]"
  by (simp_all add: WithPermittedIP_def AddPermittedIP_def WithExcludedIP_def AddExcludedIP_def
        permittedNetworks_def excludedNetworks_def Let_def split_beta
        elems_newSlice elems_appendSlice networkFor_eq CIDRMask_32 CIDRMask_128)

lemma ip_options_return_nil:
  "snd (WithPermittedIP ip m e) = None"
  "snd (AddPermittedIP X ip m e) = None"
  "snd (WithExcludedIP ip m e) = None"
  "snd (AddExcludedIP X ip m e) = None"
  by (simp_all add: WithPermittedIP_def AddPermittedIP_def WithExcludedIP_def AddExcludedIP_def
        Let_def split_beta)

lemma ipOrCIDR_loop_entry:
  assumes "forRange (parseIPOrCIDR X format) ipsOrCIDRs = Inr networks"
    and "i < length ipsOrCIDRs"
    and "net_ParseCIDR X (ipsOrCIDRs ! i) = None"
    and "net_ParseIP X (ipsOrCIDRs ! i) = Some ip"
  shows "length networks = length ipsOrCIDRs"
    and "networks ! i =
      \<lparr>IP = ip, Mask = (if isIPv4 ip then [0xff, 0xff, 0xff, 0xff] else replicate 16 0xff)\<rparr>"
proof -
  from forRange_Inr [OF assms(1)] assms(2)
  have len: "length networks = length ipsOrCIDRs"
    and nth: "parseIPOrCIDR X format (ipsOrCIDRs ! i) = Inr (networks ! i)"
    by simp_all
  show "length networks = length ipsOrCIDRs" by (rule len)
  from nth assms(3,4) show "networks ! i =
      \<lparr>IP = ip, Mask = (if isIPv4 ip then [0xff, 0xff, 0xff, 0xff] else replicate 16 0xff)\<rparr>"
    by (simp add: parseIPOrCIDR_def networkFor_eq)
qed

lemma WithPermittedIPsOrCIDRs_entry:
  assumes "WithPermittedIPsOrCIDRs X ipsOrCIDRs m e = (st, None)"
    and "i < length ipsOrCIDRs"
    and "net_ParseCIDR X (ipsOrCIDRs ! i) = None"
    and "net_ParseIP X (ipsOrCIDRs ! i) = Some ip"
  shows "length (permittedNetworks st) = length ipsOrCIDRs
    \<and> permittedNetworks st ! i =
      Some \<lparr>IP = ip, Mask = (if isIPv4 ip then [0xff, 0xff, 0xff, 0xff] else replicate 16 0xff)\<rparr>"
proof -
  from assms(1) obtain networks
    where l: "forRange (parseIPOrCIDR X ''cannot parse permitted constraint %q as IP nor CIDR'')
                ipsOrCIDRs = Inr networks"
      and st: "permittedNetworks st = map Some networks"
    by (auto simp: WithPermittedIPsOrCIDRs_def permittedNetworks_def Let_def split_beta
          elems_newSlice split: sum.splits)
  from ipOrCIDR_loop_entry [OF l assms(2,3,4)] assms(2) st show ?thesis by simp
qed

lemma WithExcludedIPsOrCIDRs_entry:
  assumes "WithExcludedIPsOrCIDRs X ipsOrCIDRs m e = (st, None)"
    and "i < length ipsOrCIDRs"
    and "net_ParseCIDR X (ipsOrCIDRs ! i) = None"
    and "net_ParseIP X (ipsOrCIDRs ! i) = Some ip"
  shows "length (excludedNetworks st) = length ipsOrCIDRs
    \<and> excludedNetworks st ! i =
      Some \<lparr>IP = ip, Mask = (if isIPv4 ip then [0xff, 0xff, 0xff, 0xff] else replicate 16 0xff)\<rparr>"
proof -
  from assms(1) obtain networks
    where l: "forRange (parseIPOrCIDR X ''cannot parse excluded constraint %q as IP nor CIDR'')
                ipsOrCIDRs = Inr networks"
      and st: "excludedNetworks st = map Some networks"
    by (auto simp: WithExcludedIPsOrCIDRs_def excludedNetworks_def Let_def split_beta
          elems_newSlice split: sum.splits)
  from ipOrCIDR_loop_entry [OF l assms(2,3,4)] assms(2) st show ?thesis by simp
qed

text \<open>
  The options on IP-or-CIDR strings succeed exactly when every entry parses as one of the
  two, so the hypothesis "the option returned \<open>nil\<close>" of the theorem below can be met.
\<close>

lemma ipOrCIDR_options_succeed:
  assumes "\<not> list_ex (\<lambda>s. net_ParseCIDR X s = None \<and> net_ParseIP X s = None) ipsOrCIDRs"
  shows "\<exists>st. WithPermittedIPsOrCIDRs X ipsOrCIDRs m e = (st, None)"
    and "\<exists>st. WithExcludedIPsOrCIDRs X ipsOrCIDRs m e = (st, None)"
proof -
  have a: "\<not> list_ex (\<lambda>s. isl (parseIPOrCIDR X format s)) ipsOrCIDRs" for format
    using assms by (simp add: isl_parseIPOrCIDR)
  from forRange_succeeds [OF a, of "''cannot parse permitted constraint %q as IP nor CIDR''"]
  obtain ys where "forRange (parseIPOrCIDR X ''cannot parse permitted constraint %q as IP nor CIDR'')
      ipsOrCIDRs = Inr ys" ..
  then show "\<exists>st. WithPermittedIPsOrCIDRs X ipsOrCIDRs m e = (st, None)"
    by (simp add: WithPermittedIPsOrCIDRs_def Let_def split_beta)
  from forRange_succeeds [OF a, of "''cannot parse excluded constraint %q as IP nor CIDR''"]
  obtain zs where "forRange (parseIPOrCIDR X ''cannot parse excluded constraint %q as IP nor CIDR'')
      ipsOrCIDRs = Inr zs" ..
  then show "\<exists>st. WithExcludedIPsOrCIDRs X ipsOrCIDRs m e = (st, None)"
    by (simp add: WithExcludedIPsOrCIDRs_def Let_def split_beta)
qed

text \<open>
  C6.  An IP address given to \<open>WithPermittedIP\<close>, \<open>AddPermittedIP\<close>, \<open>WithExcludedIP\<close> or
  \<open>AddExcludedIP\<close> is stored (as the only network, or appended to the networks the field
  held) with the address itself as base and a mask of all ones: four bytes \<open>0xff\<close> (/32)
  when \<open>isIPv4\<close> holds, sixteen (/128) otherwise.  These four options return \<open>nil\<close> and
  assign no field of the engine but their own.  In \<open>WithPermittedIPsOrCIDRs\<close> and
  \<open>WithExcludedIPsOrCIDRs\<close> an entry that is no CIDR but an IP is stored the same way at
  its own position, and an entry that is neither makes the option fail with an error, the
  engine and the memory unchanged.
\<close>

theorem ip_addresses_are_stored_as_host_networks:
  "permittedNetworks (fst (WithPermittedIP ip m e)) =
     [Some \<lparr>IP = ip, Mask = (if isIPv4 ip then [0xff, 0xff, 0xff, 0xff] else replicate 16 0xff)\<rparr>]
   \<and> snd (WithPermittedIP ip m e) = None
   \<and> fst (fst (WithPermittedIP ip m e))
       = e\<lparr>permittedIPRanges := permittedIPRanges (fst (fst (WithPermittedIP ip m e)))\<rparr>
   \<and> permittedNetworks (fst (AddPermittedIP X ip m e)) = permittedNetworks (e, m) @
     [Some \<lparr>IP = ip, Mask = (if isIPv4 ip then [0xff, 0xff, 0xff, 0xff] else replicate 16 0xff)\<rparr>]
   \<and> snd (AddPermittedIP X ip m e) = None
   \<and> fst (fst (AddPermittedIP X ip m e))
       = e\<lparr>permittedIPRanges := permittedIPRanges (fst (fst (AddPermittedIP X ip m e)))\<rparr>
   \<and> excludedNetworks (fst (WithExcludedIP ip m e)) =
     [Some \<lparr>IP = ip, Mask = (if isIPv4 ip then [0xff, 0xff, 0xff, 0xff] else replicate 16 0xff)\<rparr>]
   \<and> snd (WithExcludedIP ip m e) = None
   \<and> fst (fst (WithExcludedIP ip m e))
       = e\<lparr>excludedIPRanges := excludedIPRanges (fst (fst (WithExcludedIP ip m e)))\<rparr>
   \<and> excludedNetworks (fst (AddExcludedIP X ip m e)) = excludedNetworks (e, m) @
     [Some \<lparr>IP = ip, Mask = (if isIPv4 ip then [0xff, 0xff, 0xff, 0xff] else replicate 16 0xff)\<rparr>]
   \<and> snd (AddExcludedIP X ip m e) = None
   \<and> fst (fst (AddExcludedIP X ip m e))
       = e\<lparr>excludedIPRanges := excludedIPRanges (fst (fst (AddExcludedIP X ip m e)))\<rparr>
   \<and> (WithPermittedIPsOrCIDRs X ipsOrCIDRs m e = (st, None) \<and> i < length ipsOrCIDRs
        \<and> net_ParseCIDR X (ipsOrCIDRs ! i) = None \<and> net_ParseIP X (ipsOrCIDRs ! i) = Some ip' \<longrightarrow>
      length (permittedNetworks st) = length ipsOrCIDRs
      \<and> permittedNetworks st ! i =
          Some \<lparr>IP = ip', Mask = (if isIPv4 ip' then [0xff, 0xff, 0xff, 0xff] else replicate 16 0xff)\<rparr>)
   \<and> (WithExcludedIPsOrCIDRs X ipsOrCIDRs m e = (st', None) \<and> i < length ipsOrCIDRs
        \<and> net_ParseCIDR X (ipsOrCIDRs ! i) = None \<and> net_ParseIP X (ipsOrCIDRs ! i) = Some ip' \<longrightarrow>
      length (excludedNetworks st') = length ipsOrCIDRs
      \<and> excludedNetworks st' ! i =
          Some \<lparr>IP = ip', Mask = (if isIPv4 ip' then [0xff, 0xff, 0xff, 0xff] else replicate 16 0xff)\<rparr>)
   \<and> (list_ex (\<lambda>s. net_ParseCIDR X s = None \<and> net_ParseIP X s = None) ipsOrCIDRs \<longrightarrow>
      (\<exists>err. WithPermittedIPsOrCIDRs X ipsOrCIDRs m e = ((e, m), Some err) \<and> \<not> isPanic err)
      \<and> (\<exists>err. WithExcludedIPsOrCIDRs X ipsOrCIDRs m e = ((e, m), Some err) \<and> \<not> isPanic err))"
proof (intro conjI impI)
  assume "WithPermittedIPsOrCIDRs X ipsOrCIDRs m e = (st, None) \<and> i < length ipsOrCIDRs
        \<and> net_ParseCIDR X (ipsOrCIDRs ! i) = None \<and> net_ParseIP X (ipsOrCIDRs ! i) = Some ip'"
  then have p: "length (permittedNetworks st) = length ipsOrCIDRs
    \<and> permittedNetworks st ! i =
      Some \<lparr>IP = ip', Mask = (if isIPv4 ip' then [0xff, 0xff, 0xff, 0xff] else replicate 16 0xff)\<rparr>"
    using WithPermittedIPsOrCIDRs_entry by blast
  from p show "length (permittedNetworks st) = length ipsOrCIDRs" ..
  from p show "permittedNetworks st ! i =
      Some \<lparr>IP = ip', Mask = (if isIPv4 ip' then [0xff, 0xff, 0xff, 0xff] else replicate 16 0xff)\<rparr>" ..
next
  assume "WithExcludedIPsOrCIDRs X ipsOrCIDRs m e = (st', None) \<and> i < length ipsOrCIDRs
        \<and> net_ParseCIDR X (ipsOrCIDRs ! i) = None \<and> net_ParseIP X (ipsOrCIDRs ! i) = Some ip'"
  then have p: "length (excludedNetworks st') = length ipsOrCIDRs
    \<and> excludedNetworks st' ! i =
      Some \<lparr>IP = ip', Mask = (if isIPv4 ip' then [0xff, 0xff, 0xff, 0xff] else replicate 16 0xff)\<rparr>"
    using WithExcludedIPsOrCIDRs_entry by blast
  from p show "length (excludedNetworks st') = length ipsOrCIDRs" ..
  from p show "excludedNetworks st' ! i =
      Some \<lparr>IP = ip', Mask = (if isIPv4 ip' then [0xff, 0xff, 0xff, 0xff] else replicate 16 0xff)\<rparr>" ..
qed (rule ip_options_store_host_network ip_options_return_nil frame_WithPermittedIP
       frame_AddPermittedIP frame_WithExcludedIP frame_AddExcludedIP
     | erule ipOrCIDR_options_atomic)+

theorem ip_addresses_are_stored_as_host_networks_witness:
  "snd (WithPermittedIPsOrCIDRs standIns [''10.0.0.0/8'', ''192.168.1.7''] emptyMemory emptyEngine)
     = None
   \<and> net_ParseCIDR standIns ([''10.0.0.0/8'', ''192.168.1.7''] ! 1) = None
   \<and> net_ParseIP standIns ([''10.0.0.0/8'', ''192.168.1.7''] ! 1)
       = Some [0, 0, 0, 0, 0, 0, 0, 0, 0, 0, 0xff, 0xff, 192, 168, 1, 7]
   \<and> isIPv4 [0, 0, 0, 0, 0, 0, 0, 0, 0, 0, 0xff, 0xff, 192, 168, 1, 7]
   \<and> permittedNetworks
        (fst (WithPermittedIPsOrCIDRs standIns [''10.0.0.0/8'', ''192.168.1.7'']
                emptyMemory emptyEngine)) ! 1
       = Some \<lparr>IP = [0, 0, 0, 0, 0, 0, 0, 0, 0, 0, 0xff, 0xff, 192, 168, 1, 7],
               Mask = [0xff, 0xff, 0xff, 0xff]\<rparr>
   \<and> permittedNetworks
        (fst (WithPermittedIPsOrCIDRs standIns [''10.0.0.0/8'', ''192.168.1.7'']
                emptyMemory emptyEngine))
       = [Some \<lparr>IP = [10, 0, 0, 0], Mask = [0xff, 0, 0, 0]\<rparr>,
          Some \<lparr>IP = [0, 0, 0, 0, 0, 0, 0, 0, 0, 0, 0xff, 0xff, 192, 168, 1, 7],
                Mask = [0xff, 0xff, 0xff, 0xff]\<rparr>]
   \<and> snd (WithExcludedIPsOrCIDRs standIns [''192.168.1.7''] emptyMemory emptyEngine) = None
   \<and> excludedNetworks
        (fst (WithExcludedIPsOrCIDRs standIns [''192.168.1.7''] emptyMemory emptyEngine)) ! 0
       = Some \<lparr>IP = [0, 0, 0, 0, 0, 0, 0, 0, 0, 0, 0xff, 0xff, 192, 168, 1, 7],
               Mask = [0xff, 0xff, 0xff, 0xff]\<rparr>
   \<and> list_ex (\<lambda>s. net_ParseCIDR standIns s = None \<and> net_ParseIP standIns s = None)
        [''192.168.1.7'', ''192.168.1.256'']
   \<and> (\<exists>err. WithExcludedIPsOrCIDRs standIns [''192.168.1.7'', ''192.168.1.256'']
               emptyMemory emptyEngine
             = ((emptyEngine, emptyMemory), Some err) \<and> \<not> isPanic err)
   \<and> \<not> isIPv4 [0x20, 0x01, 0x0d, 0xb8, 0, 0, 0, 0, 0, 0, 0, 0, 0, 0, 0, 1]
   \<and> excludedNetworks
        (fst (WithExcludedIP [0x20, 0x01, 0x0d, 0xb8, 0, 0, 0, 0, 0, 0, 0, 0, 0, 0, 0, 1]
                emptyMemory emptyEngine))
       = [Some \<lparr>IP = [0x20, 0x01, 0x0d, 0xb8, 0, 0, 0, 0, 0, 0, 0, 0, 0, 0, 0, 1],
                Mask = replicate 16 0xff\<rparr>]"
proof -
  let ?xs = "[''10.0.0.0/8'', ''192.168.1.7'']"
  let ?ip = "[0, 0, 0, 0, 0, 0, 0, 0, 0, 0, 0xff, 0xff, 192, 168, 1, 7] :: IP"
  let ?ip6 = "[0x20, 0x01, 0x0d, 0xb8, 0, 0, 0, 0, 0, 0, 0, 0, 0, 0, 0, 1] :: IP"
  let ?run = "WithPermittedIPsOrCIDRs standIns ?xs emptyMemory emptyEngine"
  let ?runx = "WithExcludedIPsOrCIDRs standIns [''192.168.1.7''] emptyMemory emptyEngine"
  have nil: "snd ?run = None" by code_simp
  then have run: "?run = (fst ?run, None)" by (simp add: prod_eq_iff)
  have all: "permittedNetworks (fst ?run)
       = [Some \<lparr>IP = [10, 0, 0, 0], Mask = [0xff, 0, 0, 0]\<rparr>,
          Some \<lparr>IP = ?ip, Mask = [0xff, 0xff, 0xff, 0xff]\<rparr>]"
    by code_simp
  have c: "net_ParseCIDR standIns (?xs ! 1) = None" by code_simp
  have p: "net_ParseIP standIns (?xs ! 1) = Some ?ip" by code_simp
  have v4: "isIPv4 ?ip" by code_simp
  have v6: "\<not> isIPv4 ?ip6" by code_simp
  have bad: "list_ex (\<lambda>s. net_ParseCIDR standIns s = None \<and> net_ParseIP standIns s = None)
        [''192.168.1.7'', ''192.168.1.256'']"
    by code_simp
  note t = ip_addresses_are_stored_as_host_networks
    [where X = standIns and e = emptyEngine and m = emptyMemory]
  have i1: "(1::nat) < length ?xs" by simp
  from t [where ipsOrCIDRs = ?xs and st = "fst ?run" and i = 1 and ip' = ?ip] run i1 c p
  have "permittedNetworks (fst ?run) ! 1
      = Some \<lparr>IP = ?ip, Mask = (if isIPv4 ?ip then [0xff, 0xff, 0xff, 0xff] else replicate 16 0xff)\<rparr>"
    by blast
  with v4 have stored: "permittedNetworks (fst ?run) ! 1
      = Some \<lparr>IP = ?ip, Mask = [0xff, 0xff, 0xff, 0xff]\<rparr>"
    by (simp only: if_True)
  have nilx: "snd ?runx = None" by code_simp
  then have runx: "?runx = (fst ?runx, None)" by (simp add: prod_eq_iff)
  have cx: "net_ParseCIDR standIns ([''192.168.1.7''] ! 0) = None" by code_simp
  have px: "net_ParseIP standIns ([''192.168.1.7''] ! 0) = Some ?ip" by code_simp
  have i0: "(0::nat) < length [''192.168.1.7'']" by simp
  from t [where ipsOrCIDRs = "[''192.168.1.7'']" and st' = "fst ?runx" and i = 0 and ip' = ?ip]
    runx i0 cx px
  have "excludedNetworks (fst ?runx) ! 0
      = Some \<lparr>IP = ?ip, Mask = (if isIPv4 ?ip then [0xff, 0xff, 0xff, 0xff] else replicate 16 0xff)\<rparr>"
    by blast
  with v4 have storedx: "excludedNetworks (fst ?runx) ! 0
      = Some \<lparr>IP = ?ip, Mask = [0xff, 0xff, 0xff, 0xff]\<rparr>"
    by (simp only: if_True)
  from t [where ipsOrCIDRs = "[''192.168.1.7'', ''192.168.1.256'']"] bad
  have fails: "\<exists>err. WithExcludedIPsOrCIDRs standIns [''192.168.1.7'', ''192.168.1.256'']
               emptyMemory emptyEngine
             = ((emptyEngine, emptyMemory), Some err) \<and> \<not> isPanic err"
    by blast
  from t [where ip = ?ip6]
  have "excludedNetworks (fst (WithExcludedIP ?ip6 emptyMemory emptyEngine))
     = [Some \<lparr>IP = ?ip6, Mask = (if isIPv4 ?ip6 then [0xff, 0xff, 0xff, 0xff] else replicate 16 0xff)\<rparr>]"
    by blast
  with v6 have six: "excludedNetworks (fst (WithExcludedIP ?ip6 emptyMemory emptyEngine))
     = [Some \<lparr>IP = ?ip6, Mask = replicate 16 0xff\<rparr>]"
    by (simp only: if_False)
  from nil c p v4 stored all nilx storedx bad fails v6 six show ?thesis by blast
qed

section \<open>The error of the DNS options\<close>

lemma dnsDomain_error:
  assumes "normalizeAndValidateDNSDomainConstraint X d = Inl err" and "\<not> isPanic err"
  shows "dnsDomain X d = Inl (Errorf ''cannot parse permitted domain constraint %q'' [d])"
  using assms by (simp add: dnsDomain_def)

text \<open>
  C7.  The claim: the error of a failing option names the raw input and the rule that was
  broken, and an excluded option's error speaks of an excluded constraint.  On the domain
  \<open>a..b\<close> the normalizer reports the empty label, but \<open>WithExcludedDNSDomain\<close> and
  \<open>WithExcludedDNSDomains\<close> drop that error and return "cannot parse permitted domain
  constraint": the rule is gone and the constraint is called permitted.  The same message
  comes back for every domain the normalizer rejects, from the permitted and the
  excluded single-value options alike.
\<close>

theorem excluded_dns_error_says_permitted:
  "normalizeAndValidateDNSDomainConstraint X ''a..b''
     = Inl (Errorf ''domain constraint %q cannot have empty labels'' [''a..b''])
   \<and> WithExcludedDNSDomain X ''a..b'' e
     = (e, Some (Errorf ''cannot parse permitted domain constraint %q'' [''a..b'']))
   \<and> WithExcludedDNSDomains X [''a..b''] e
     = (e, Some (Errorf ''cannot parse permitted domain constraint %q'' [''a..b'']))
   \<and> (normalizeAndValidateDNSDomainConstraint X d = Inl err \<and> \<not> isPanic err \<longrightarrow>
        WithExcludedDNSDomain X d e
          = (e, Some (Errorf ''cannot parse permitted domain constraint %q'' [d]))
        \<and> AddExcludedDNSDomain X d e
          = (e, Some (Errorf ''cannot parse permitted domain constraint %q'' [d]))
        \<and> WithPermittedDNSDomain X d e
          = (e, Some (Errorf ''cannot parse permitted domain constraint %q'' [d]))
        \<and> AddPermittedDNSDomain X d e
          = (e, Some (Errorf ''cannot parse permitted domain constraint %q'' [d])))"
proof (intro conjI impI)
  show "normalizeAndValidateDNSDomainConstraint X ''a..b''
     = Inl (Errorf ''domain constraint %q cannot have empty labels'' [''a..b''])"
    by (simp add: normalizeAndValidateDNSDomainConstraint_def string_evals)
  then show "WithExcludedDNSDomain X ''a..b'' e
     = (e, Some (Errorf ''cannot parse permitted domain constraint %q'' [''a..b'']))"
    by (simp add: WithExcludedDNSDomain_def dnsDomain_def)
  show "WithExcludedDNSDomains X [''a..b''] e
     = (e, Some (Errorf ''cannot parse permitted domain constraint %q'' [''a..b'']))"
    by (simp add: WithExcludedDNSDomains_def dnsDomain_def
          normalizeAndValidateDNSDomainConstraint_def string_evals)
next
  assume "normalizeAndValidateDNSDomainConstraint X d = Inl err \<and> \<not> isPanic err"
  then have f: "dnsDomain X d = Inl (Errorf ''cannot parse permitted domain constraint %q'' [d])"
    using dnsDomain_error by blast
  from f show "WithExcludedDNSDomain X d e
          = (e, Some (Errorf ''cannot parse permitted domain constraint %q'' [d]))"
    by (simp add: WithExcludedDNSDomain_def)
  from f show "AddExcludedDNSDomain X d e
          = (e, Some (Errorf ''cannot parse permitted domain constraint %q'' [d]))"
    by (simp add: AddExcludedDNSDomain_def)
  from f show "WithPermittedDNSDomain X d e
          = (e, Some (Errorf ''cannot parse permitted domain constraint %q'' [d]))"
    by (simp add: WithPermittedDNSDomain_def)
  from f show "AddPermittedDNSDomain X d e
          = (e, Some (Errorf ''cannot parse permitted domain constraint %q'' [d]))"
    by (simp add: AddPermittedDNSDomain_def)
qed

theorem excluded_dns_error_says_permitted_witness:
  "normalizeAndValidateDNSDomainConstraint standIns ''a..b''
     = Inl (Errorf ''domain constraint %q cannot have empty labels'' [''a..b''])
   \<and> WithExcludedDNSDomain standIns ''a..b'' emptyEngine
     = (emptyEngine, Some (Errorf ''cannot parse permitted domain constraint %q'' [''a..b'']))
   \<and> WithExcludedDNSDomains standIns [''a..b''] emptyEngine
     = (emptyEngine, Some (Errorf ''cannot parse permitted domain constraint %q'' [''a..b'']))
   \<and> normalizeAndValidateDNSDomainConstraint standIns ''a*b''
     = Inl (Errorf ''domain constraint %q can only have wildcard as starting character'' [''a*b''])
   \<and> AddExcludedDNSDomain standIns ''a*b'' emptyEngine
     = (emptyEngine, Some (Errorf ''cannot parse permitted domain constraint %q'' [''a*b'']))"
proof -
  have n: "normalizeAndValidateDNSDomainConstraint standIns ''a*b''
     = Inl (Errorf ''domain constraint %q can only have wildcard as starting character'' [''a*b''])"
    by code_simp
  have p: "\<not> isPanic (Errorf ''domain constraint %q can only have wildcard as starting character''
      [''a*b''])"
    by simp
  from excluded_dns_error_says_permitted [of standIns emptyEngine "''a*b''"
      "Errorf ''domain constraint %q can only have wildcard as starting character'' [''a*b'']"]
    n p
  show ?thesis by blast
qed

section \<open>What an option leaves alone\<close>


































section \<open>The type of a management error\<close>

text \<open>
  C9.  The claim: for each of the four problem types \<open>pt\<close>, \<open>NewError(pt, msg)\<close> satisfies
  \<open>IsType(pt)\<close>.  It holds for three of them.  The entry of \<open>ErrorDeletedType\<close> in
  \<open>errorMap\<close> carries \<open>ErrorNotFoundType.String()\<close>, so an error made for a deleted resource
  has the type \<open>notFound\<close>: it is of type \<open>ErrorNotFoundType\<close> and not of type
  \<open>ErrorDeletedType\<close>.
\<close>

theorem deleted_error_has_type_not_found:
  "Type (NewError ErrorDeletedType msg args) = ''notFound''
   \<and> \<not> IsType (NewError ErrorDeletedType msg args) ErrorDeletedType
   \<and> IsType (NewError ErrorDeletedType msg args) ErrorNotFoundType
   \<and> IsType (NewError ErrorNotFoundType msg args) ErrorNotFoundType
   \<and> IsType (NewError ErrorAuthorityMismatchType msg args) ErrorAuthorityMismatchType
   \<and> IsType (NewError ErrorServerInternalType msg args) ErrorServerInternalType"
  by (simp add: IsType_def NewError_def newError_def errorMap_def errorServerInternalMetadata_def
        problem_types ProblemType_String_def)

theorem deleted_error_has_type_not_found_witness:
  "Type (NewError ErrorDeletedType ''provisioner %s is deleted'' [''p1'']) = ''notFound''
   \<and> \<not> IsType (NewError ErrorDeletedType ''provisioner %s is deleted'' [''p1'']) ErrorDeletedType"
  using deleted_error_has_type_not_found [of "''provisioner %s is deleted''" "[''p1'']"] by simp

section \<open>Updating a provisioner\<close>

lemma UpdateProvisioner_Inr:
  assumes "UpdateProvisioner db now prov = Inr call"
  shows "getDBProvisioner db (prov_ID prov) = Inr (save_old call)"
    and "save_id call = dbp_ID (save_old call)"
    and "save_nu call =
      (save_old call)
        \<lparr>dbp_DeletedAt :=
           (if IsZero (dbp_DeletedAt (save_old call)) \<and> prov_Status prov = StatusDeleted
            then now else dbp_DeletedAt (save_old call)),
         dbp_Claims := prov_Claims prov,
         dbp_Details := prov_Details prov,
         dbp_X509Template := prov_X509Template prov,
         dbp_SSHTemplate := prov_SSHTemplate prov\<rparr>"
proof -
  from assms obtain old where old: "getDBProvisioner db (prov_ID prov) = Inr old"
    by (auto simp: UpdateProvisioner_def split: sum.splits)
  with assms have call: "call =
      \<lparr>save_id = dbp_ID old,
       save_nu = old
        \<lparr>dbp_DeletedAt :=
           (if IsZero (dbp_DeletedAt old) \<and> prov_Status prov = StatusDeleted
            then now else dbp_DeletedAt old),
         dbp_Claims := prov_Claims prov,
         dbp_Details := prov_Details prov,
         dbp_X509Template := prov_X509Template prov,
         dbp_SSHTemplate := prov_SSHTemplate prov\<rparr>,
       save_old = old\<rparr>"
    by (auto simp: UpdateProvisioner_def clone_def Let_def)
  from old call show "getDBProvisioner db (prov_ID prov) = Inr (save_old call)" by simp
  from call show "save_id call = dbp_ID (save_old call)" by simp
  from call show "save_nu call =
      (save_old call)
        \<lparr>dbp_DeletedAt :=
           (if IsZero (dbp_DeletedAt (save_old call)) \<and> prov_Status prov = StatusDeleted
            then now else dbp_DeletedAt (save_old call)),
         dbp_Claims := prov_Claims prov,
         dbp_Details := prov_Details prov,
         dbp_X509Template := prov_X509Template prov,
         dbp_SSHTemplate := prov_SSHTemplate prov\<rparr>"
    by simp
qed

text \<open>
  C10.  When \<open>UpdateProvisioner\<close> gets as far as writing, the record it replaces is the
  stored one, and the record it writes has the stored \<open>ID\<close>, \<open>AuthorityID\<close>, \<open>Type\<close>,
  \<open>Name\<close> and \<open>CreatedAt\<close>.  A \<open>DeletedAt\<close> that is not zero is kept; \<open>DeletedAt\<close> changes
  only when the stored one is zero and the new status is \<open>StatusDeleted\<close>, and then it
  becomes the current time.
\<close>

theorem UpdateProvisioner_keeps_identity_and_deletion:
  assumes "UpdateProvisioner db now prov = Inr call"
  shows "getDBProvisioner db (prov_ID prov) = Inr (save_old call)
    \<and> save_id call = dbp_ID (save_old call)
    \<and> dbp_ID (save_nu call) = dbp_ID (save_old call)
    \<and> dbp_AuthorityID (save_nu call) = dbp_AuthorityID (save_old call)
    \<and> dbp_Type (save_nu call) = dbp_Type (save_old call)
    \<and> dbp_Name (save_nu call) = dbp_Name (save_old call)
    \<and> dbp_CreatedAt (save_nu call) = dbp_CreatedAt (save_old call)
    \<and> (\<not> IsZero (dbp_DeletedAt (save_old call)) \<longrightarrow>
          dbp_DeletedAt (save_nu call) = dbp_DeletedAt (save_old call))
    \<and> (dbp_DeletedAt (save_nu call) \<noteq> dbp_DeletedAt (save_old call) \<longrightarrow>
          IsZero (dbp_DeletedAt (save_old call)) \<and> prov_Status prov = StatusDeleted
          \<and> dbp_DeletedAt (save_nu call) = now)"
proof -
  note u = UpdateProvisioner_Inr [OF assms]
  have "dbp_ID (save_nu call) = dbp_ID (save_old call)" by (subst u(3)) simp
  moreover have "dbp_AuthorityID (save_nu call) = dbp_AuthorityID (save_old call)"
    by (subst u(3)) simp
  moreover have "dbp_Type (save_nu call) = dbp_Type (save_old call)" by (subst u(3)) simp
  moreover have "dbp_Name (save_nu call) = dbp_Name (save_old call)" by (subst u(3)) simp
  moreover have "dbp_CreatedAt (save_nu call) = dbp_CreatedAt (save_old call)"
    by (subst u(3)) simp
  moreover have d: "dbp_DeletedAt (save_nu call) =
      (if IsZero (dbp_DeletedAt (save_old call)) \<and> prov_Status prov = StatusDeleted
       then now else dbp_DeletedAt (save_old call))"
    by (subst u(3)) simp
  moreover from d have "\<not> IsZero (dbp_DeletedAt (save_old call)) \<longrightarrow>
          dbp_DeletedAt (save_nu call) = dbp_DeletedAt (save_old call)"
    by simp
  moreover from d have "dbp_DeletedAt (save_nu call) \<noteq> dbp_DeletedAt (save_old call) \<longrightarrow>
          IsZero (dbp_DeletedAt (save_old call)) \<and> prov_Status prov = StatusDeleted
          \<and> dbp_DeletedAt (save_nu call) = now"
    by (simp split: if_splits)
  ultimately show ?thesis using u(1,2) by blast
qed

theorem UpdateProvisioner_keeps_identity_and_deletion_witness:
  "UpdateProvisioner (oneProvisionerDB 0) 9 (updateRequest StatusDeleted)
     = Inr \<lparr>save_id = ''p1'',
            save_nu = (storedProvisioner 9)
              \<lparr>dbp_Details := [1, 2], dbp_X509Template := ''t'', dbp_SSHTemplate := ''s''\<rparr>,
            save_old = storedProvisioner 0\<rparr>
   \<and> dbp_Name ((storedProvisioner 9)
              \<lparr>dbp_Details := [1, 2], dbp_X509Template := ''t'', dbp_SSHTemplate := ''s''\<rparr>)
       = dbp_Name (storedProvisioner 0)
   \<and> dbp_DeletedAt ((storedProvisioner 9)
              \<lparr>dbp_Details := [1, 2], dbp_X509Template := ''t'', dbp_SSHTemplate := ''s''\<rparr>)
       \<noteq> dbp_DeletedAt (storedProvisioner 0)
   \<and> IsZero (dbp_DeletedAt (storedProvisioner 0))
   \<and> UpdateProvisioner (oneProvisionerDB 7) 9 (updateRequest StatusActive)
     = Inr \<lparr>save_id = ''p1'',
            save_nu = (storedProvisioner 7)
              \<lparr>dbp_Details := [1, 2], dbp_X509Template := ''t'', dbp_SSHTemplate := ''s''\<rparr>,
            save_old = storedProvisioner 7\<rparr>
   \<and> \<not> IsZero (dbp_DeletedAt (storedProvisioner 7))
   \<and> dbp_DeletedAt ((storedProvisioner 7)
              \<lparr>dbp_Details := [1, 2], dbp_X509Template := ''t'', dbp_SSHTemplate := ''s''\<rparr>)
       = dbp_DeletedAt (storedProvisioner 7)"
proof -
  let ?nu9 = "(storedProvisioner 9)
              \<lparr>dbp_Details := [1, 2], dbp_X509Template := ''t'', dbp_SSHTemplate := ''s''\<rparr>"
  let ?nu7 = "(storedProvisioner 7)
              \<lparr>dbp_Details := [1, 2], dbp_X509Template := ''t'', dbp_SSHTemplate := ''s''\<rparr>"
  have r1: "UpdateProvisioner (oneProvisionerDB 0) 9 (updateRequest StatusDeleted)
     = Inr \<lparr>save_id = ''p1'', save_nu = ?nu9, save_old = storedProvisioner 0\<rparr>"
    by (simp add: UpdateProvisioner_def getDBProvisioner_def getDBProvisionerBytes_def
          unmarshalDBProvisioner_def oneProvisionerDB_def storedProvisioner_def
          updateRequest_def clone_def IsZero_def)
  have r2: "UpdateProvisioner (oneProvisionerDB 7) 9 (updateRequest StatusActive)
     = Inr \<lparr>save_id = ''p1'', save_nu = ?nu7, save_old = storedProvisioner 7\<rparr>"
    by (simp add: UpdateProvisioner_def getDBProvisioner_def getDBProvisionerBytes_def
          unmarshalDBProvisioner_def oneProvisionerDB_def storedProvisioner_def
          updateRequest_def clone_def IsZero_def)
  have nz: "\<not> IsZero (dbp_DeletedAt (storedProvisioner 7))"
    by (simp add: IsZero_def storedProvisioner_def)
  from UpdateProvisioner_keeps_identity_and_deletion [OF r1]
  have n: "dbp_Name ?nu9 = dbp_Name (storedProvisioner 0)" by simp
  have ch: "dbp_DeletedAt ?nu9 \<noteq> dbp_DeletedAt (storedProvisioner 0)"
    by (simp add: storedProvisioner_def)
  from UpdateProvisioner_keeps_identity_and_deletion [OF r1] ch
  have z: "IsZero (dbp_DeletedAt (storedProvisioner 0))" by simp
  from UpdateProvisioner_keeps_identity_and_deletion [OF r2] nz
  have d: "dbp_DeletedAt ?nu7 = dbp_DeletedAt (storedProvisioner 7)" by simp
  from r1 r2 nz n ch z d show ?thesis by blast
qed

end
